theory Spec2Isabelle
  imports Complex_Main "HOL-Library.AList" "HOL-Library.Sublist"
begin

section \<open>JavaScript values and the library calls of server.js\<close>

text \<open>
  The request body of \<^verbatim>\<open>POST /api/contact\<close> is a JSON object whose fields are strings
  (section 6 of the specification). A field that is absent is \<^verbatim>\<open>undefined\<close> after
  the destructuring of line 55: \<open>None\<close> here. A JavaScript string is modelled as a
  \<open>string\<close>, one \<open>char\<close> for each UTF-16 code unit, so \<open>length\<close> is \<^verbatim>\<open>.length\<close>.
\<close>

type_synonym jsstring = "string option"

text \<open>\<^verbatim>\<open>if (v)\<close> and \<^verbatim>\<open>!v\<close> on a value that is a string or undefined.\<close>

definition truthy :: "jsstring \<Rightarrow> bool" where
  "truthy v = (case v of None \<Rightarrow> False | Some s \<Rightarrow> s \<noteq> [])"

definition falsy :: "jsstring \<Rightarrow> bool" where
  "falsy v = (case v of None \<Rightarrow> True | Some s \<Rightarrow> s = [])"

text \<open>
  The string held by a variable. It is only applied to variables that an earlier test
  of the handler has found truthy.
\<close>

definition str :: "jsstring \<Rightarrow> string" where
  "str v = (case v of None \<Rightarrow> [] | Some s \<Rightarrow> s)"

text \<open>\<^verbatim>\<open>a || b\<close> on strings: the first operand unless it is empty.\<close>

definition or_else :: "string \<Rightarrow> string \<Rightarrow> string" where
  "or_else a b = (if a = [] then b else a)"

text \<open>\<^verbatim>\<open>a || null\<close>, as the INSERT of line 133 passes the subject.\<close>

definition or_null :: "string \<Rightarrow> string option" where
  "or_null a = (if a = [] then None else Some a)"

datatype exn =
    TypeError string
  | Error string
  | ResendError string

fun exn_message :: "exn \<Rightarrow> string" where
  "exn_message (TypeError m) = m"
| "exn_message (Error m) = m"
| "exn_message (ResendError m) = m"

subsection \<open>validator.js\<close>

text \<open>
  \<^verbatim>\<open>str.replace(/c/g, rep)\<close> for a one-character pattern: every occurrence of \<open>c\<close>
  is replaced, left to right.
\<close>

definition replace_all :: "char \<Rightarrow> string \<Rightarrow> string \<Rightarrow> string" where
  "replace_all c rep s = concat (map (\<lambda>x. if x = c then rep else [x]) s)"

text \<open>
  \<^verbatim>\<open>validator.escape\<close> on a string: eight replacements, applied in this order:
  \<^verbatim>\<open>&\<close>, the double quote (0x22), the single quote (0x27), \<^verbatim>\<open><\<close>, \<^verbatim>\<open>>\<close>,
  \<^verbatim>\<open>/\<close>, the backslash (0x5C) and the backtick (0x60).
\<close>

definition escape_str :: "string \<Rightarrow> string" where
  "escape_str s =
     replace_all (CHR 0x60) ''&#96;''
    (replace_all (CHR 0x5C) ''&#x5C;''
    (replace_all (CHR 0x2F) ''&#x2F;''
    (replace_all (CHR 0x3E) ''&gt;''
    (replace_all (CHR 0x3C) ''&lt;''
    (replace_all (CHR 0x27) ''&#x27;''
    (replace_all (CHR 0x22) ''&quot;''
    (replace_all (CHR 0x26) ''&amp;'' s)))))))"

text \<open>
  What the eight replacements together make of one character, and the characters that
  they remove. Both are used to state properties of \<open>escape_str\<close>, which is proved
  equal to replacing each character by its \<open>entity\<close>.
\<close>

definition entity :: "char \<Rightarrow> string" where
  "entity c =
     (if c = CHR 0x26 then ''&amp;''
      else if c = CHR 0x22 then ''&quot;''
      else if c = CHR 0x27 then ''&#x27;''
      else if c = CHR 0x3C then ''&lt;''
      else if c = CHR 0x3E then ''&gt;''
      else if c = CHR 0x2F then ''&#x2F;''
      else if c = CHR 0x5C then ''&#x5C;''
      else if c = CHR 0x60 then ''&#96;''
      else [c])"

definition markup :: "char list" where
  "markup = [CHR 0x3C, CHR 0x3E, CHR 0x22, CHR 0x27, CHR 0x2F, CHR 0x5C, CHR 0x60]"

text \<open>
  Every function of validator.js begins with \<^verbatim>\<open>assertString(input)\<close>, which throws a
  TypeError on anything that is not a string; \<^verbatim>\<open>undefined\<close> is the one such value
  of this model.
\<close>

definition escape :: "jsstring \<Rightarrow> exn + string" where
  "escape v =
     (case v of
        None \<Rightarrow> Inl (TypeError ''Expected a string but received a undefined'')
      | Some s \<Rightarrow> Inr (escape_str s))"

text \<open>
  \<^verbatim>\<open>validator.isLength(str, {min, max})\<close>. The library counts a surrogate pair and a
  variation selector as no extra character; strings of this model hold neither, so the
  count is the length.
\<close>

definition isLength :: "string \<Rightarrow> nat \<Rightarrow> nat option \<Rightarrow> bool" where
  "isLength s mn mx =
     (let len = length s
      in mn \<le> len \<and> (case mx of None \<Rightarrow> True | Some m \<Rightarrow> len \<le> m))"

subsection \<open>The environment\<close>

text \<open>
  \<^verbatim>\<open>validator.isEmail\<close> is a grammar of its own (local part, domain, options) and is
  not part of the sources: it is a parameter, and every theorem holds for any predicate
  in its place. The two variables of \<^verbatim>\<open>process.env\<close> that the handlers read are
  undefined when not configured.
\<close>

record env =
  isEmail :: "string \<Rightarrow> bool"
  EMAIL_USER :: jsstring
  ADMIN_API_KEY :: jsstring

subsection \<open>utils/logger.js\<close>

datatype jsval =
    Str string
  | Undefined
  | IsoTime nat

definition jsval_of :: "jsstring \<Rightarrow> jsval" where
  "jsval_of v = (case v of None \<Rightarrow> Undefined | Some s \<Rightarrow> Str s)"

type_synonym json_object = "(string \<times> jsval) list"

text \<open>
  \<^verbatim>\<open>{timestamp, type, ...data}\<close>: the keys of \<open>data\<close> are written over the first
  two, a key that is already there keeping its place. The argument \<open>t\<close> is the clock
  that \<^verbatim>\<open>new Date()\<close> reads. The result is the object handed to
  \<^verbatim>\<open>JSON.stringify\<close>, which prints one line and leaves undefined values out.
\<close>

definition logEvent :: "string \<Rightarrow> json_object \<Rightarrow> nat \<Rightarrow> json_object" where
  "logEvent type data t =
     fold (\<lambda>(k, v) obj. AList.update k v obj) data
       [(''timestamp'', IsoTime t), (''type'', Str type)]"

section \<open>The state of the service and the outside world\<close>

text \<open>The argument of \<^verbatim>\<open>resend.emails.send\<close>.\<close>

record mail =
  mail_from :: string
  mail_to :: "jsstring list"
  mail_reply_to :: string
  mail_subject :: string
  mail_text :: string
  mail_html :: string

text \<open>
  A row of the table \<^verbatim>\<open>messages\<close>: the six columns of the INSERT, and the two that
  the store assigns.
\<close>

record row =
  row_id :: nat
  first_name :: string
  last_name :: string
  col_email :: string
  col_subject :: "string option"
  col_message :: string
  ip_address :: string
  created_at :: nat

text \<open>
  \<open>log\<close> holds the objects printed by \<open>logEvent\<close>, \<open>console_error\<close> the calls of
  \<^verbatim>\<open>console.error\<close>, \<open>outbox\<close> every call of \<^verbatim>\<open>resend.emails.send\<close> in order
  (whatever the provider answered), \<open>messages\<close> the table, and \<open>hits\<close> the counters of
  the rate limiter: for a source address, the requests counted in its window and the
  time at which the window ends.
\<close>

record state =
  log :: "json_object list"
  console_error :: "(string \<times> exn) list"
  outbox :: "mail list"
  messages :: "row list"
  hits :: "string \<Rightarrow> (nat \<times> nat) option"

text \<open>
  What the outside world answers during one request: the clock (milliseconds), the
  provider's answer to the send call (\<^verbatim>\<open>{data, error}\<close> with \<open>error\<close> null, with an
  error payload, or an exception), and the database's answer to a query.
\<close>

datatype send_result =
    Sent
  | ErrorPayload string
  | SendThrows exn

datatype query_result =
    QueryOk
  | QueryThrows exn

record world =
  now :: nat
  send :: send_result
  db :: query_result

record payload =
  firstName :: jsstring
  lastName :: jsstring
  email :: jsstring
  subject :: jsstring
  message :: jsstring
  company :: jsstring

record request =
  ip :: string
  body :: payload

datatype response_body =
    Success
  | ErrorMsg string
  | Listing int int int int "row list"
  | NotFoundPage string

text \<open>
  A handler answers, or an exception leaves it: line 94 is outside the \<^verbatim>\<open>try\<close>
  block, so what it throws is not caught by the handler, which then sends no response.
\<close>

datatype outcome =
    Respond nat response_body
  | Uncaught exn

section \<open>The contact route\<close>

definition nl :: string where
  "nl = [CHR 0x0A]"

text \<open>Lines 97 to 111: the message handed to the provider.\<close>

definition contact_mail ::
  "env \<Rightarrow> string \<Rightarrow> string \<Rightarrow> string \<Rightarrow> string \<Rightarrow> string \<Rightarrow> mail" where
  "contact_mail e em sanitizedFirstName sanitizedLastName sanitizedSubject sanitizedMessage =
     \<lparr> mail_from = ''Portfolio Contact <onboarding@resend.dev>'',
       mail_to = [EMAIL_USER e],
       mail_reply_to = em,
       mail_subject = or_else sanitizedSubject ''New Portfolio Contact'',
       mail_text =
         ''Name: '' @ sanitizedFirstName @ '' '' @ sanitizedLastName @ nl @
         ''Email: '' @ em @ nl @
         ''Subject: '' @ sanitizedSubject @ nl @
         ''Message: '' @ sanitizedMessage,
       mail_html =
         nl @ ''        <h3>New Contact Form Submission</h3>'' @ nl @
         ''        <p><strong>Name:</strong> '' @ sanitizedFirstName @ '' '' @
           sanitizedLastName @ ''</p>'' @ nl @
         ''        <p><strong>Email:</strong> '' @ em @ ''</p>'' @ nl @
         ''        <p><strong>Subject:</strong> '' @ or_else sanitizedSubject ''None'' @
           ''</p>'' @ nl @
         ''        <p><strong>Message:</strong></p>'' @ nl @
         ''        <p>'' @ sanitizedMessage @ ''</p>'' @ nl @
         ''      '' \<rparr>"

text \<open>Lines 123 to 137: the row of the INSERT; the store gives the id and the time.\<close>

definition contact_row ::
  "state \<Rightarrow> world \<Rightarrow> request \<Rightarrow> string \<Rightarrow> string \<Rightarrow> string \<Rightarrow> string \<Rightarrow> string \<Rightarrow> row" where
  "contact_row st w req em sanitizedFirstName sanitizedLastName sanitizedSubject sanitizedMessage =
     \<lparr> row_id = Suc (length (messages st)),
       first_name = sanitizedFirstName,
       last_name = sanitizedLastName,
       col_email = em,
       col_subject = or_null sanitizedSubject,
       col_message = sanitizedMessage,
       ip_address = ip req,
       created_at = now w \<rparr>"

text \<open>Lines 146 to 155: the \<^verbatim>\<open>catch\<close> block.\<close>

definition contact_catch :: "world \<Rightarrow> request \<Rightarrow> exn \<Rightarrow> state \<Rightarrow> outcome \<times> state" where
  "contact_catch w req err st =
     (Respond 500 (ErrorMsg ''Failed to send message. Please try again later.''),
      st\<lparr> console_error := console_error st @ [(''Server error:'', err)],
          log := log st @
            [logEvent ''ERROR''
               [(''ip'', Str (ip req)), (''error'', Str (exn_message err))] (now w)] \<rparr>)"

text \<open>Lines 96 to 145: the \<^verbatim>\<open>try\<close> block.\<close>

definition contact_try ::
  "env \<Rightarrow> world \<Rightarrow> request \<Rightarrow> string \<Rightarrow> string \<Rightarrow> string \<Rightarrow> string \<Rightarrow> string \<Rightarrow> state
     \<Rightarrow> outcome \<times> state" where
  "contact_try e w req em sanitizedFirstName sanitizedLastName sanitizedSubject sanitizedMessage st =
     (let st1 = st\<lparr> outbox := outbox st @
                 [contact_mail e em sanitizedFirstName sanitizedLastName sanitizedSubject
                    sanitizedMessage] \<rparr>
      in case send w of
           SendThrows err \<Rightarrow> contact_catch w req err st1
         | ErrorPayload m \<Rightarrow>
             contact_catch w req (ResendError m)
               (st1\<lparr> log := log st1 @
                  [logEvent ''RESEND_ERROR''
                     [(''ip'', Str (ip req)), (''email'', Str em), (''error'', Str m)]
                     (now w)] \<rparr>)
         | Sent \<Rightarrow>
             (case db w of
                QueryThrows err \<Rightarrow> contact_catch w req err st1
              | QueryOk \<Rightarrow>
                  (Respond 200 Success,
                   st1\<lparr> messages := messages st1 @
                          [contact_row st1 w req em sanitizedFirstName sanitizedLastName
                             sanitizedSubject sanitizedMessage],
                        log := log st1 @
                          [logEvent ''SUCCESS''
                             [(''ip'', Str (ip req)), (''email'', Str em),
                              (''subject'', jsval_of (subject (body req)))] (now w)] \<rparr>)))"

text \<open>Lines 54 to 156: the handler of \<^verbatim>\<open>POST /api/contact\<close>, behind the rate limiter.\<close>

definition contact_handler :: "env \<Rightarrow> world \<Rightarrow> request \<Rightarrow> state \<Rightarrow> outcome \<times> state" where
  "contact_handler e w req st =
     (let p = body req in
      if truthy (company p) then
        (Respond 200 Success,
         st\<lparr> log := log st @ [logEvent ''SPAM_BLOCKED'' [(''ip'', Str (ip req))] (now w)] \<rparr>)
      else if falsy (firstName p) \<or> falsy (lastName p) \<or> falsy (email p) \<or> falsy (message p) then
        (Respond 400 (ErrorMsg ''Missing required fields.''), st)
      else if falsy (email p) \<or> \<not> isEmail e (str (email p)) then
        (Respond 400 (ErrorMsg ''Please provide a valid email address''), st)
      else if \<not> isLength (str (email p)) 0 (Some 254) then
        (Respond 400 (ErrorMsg ''Email address is too long''), st)
      else if falsy (message p) \<or> length (str (message p)) > 1000 then
        (Respond 400 (ErrorMsg ''Message must be less than 1000 characters''), st)
      else
        (case escape (message p) of
           Inl err \<Rightarrow> (Uncaught err, st)
         | Inr sanitizedMessage \<Rightarrow>
        (case escape (firstName p) of
           Inl err \<Rightarrow> (Uncaught err, st)
         | Inr sanitizedFirstName \<Rightarrow>
        (case escape (lastName p) of
           Inl err \<Rightarrow> (Uncaught err, st)
         | Inr sanitizedLastName \<Rightarrow>
        (case escape (subject p) of
           Inl err \<Rightarrow> (Uncaught err, st)
         | Inr sanitizedSubject \<Rightarrow>
             contact_try e w req (str (email p)) sanitizedFirstName sanitizedLastName
               sanitizedSubject sanitizedMessage st)))))"

subsection \<open>The rate limiter\<close>

text \<open>Lines 39 to 41: the options given to \<^verbatim>\<open>rateLimit\<close>.\<close>

definition windowMs :: nat where
  "windowMs = 15 * 60 * 1000"

definition limiter_max :: nat where
  "limiter_max = 5"

text \<open>
  Modelled from the spec: the counting of \<^verbatim>\<open>express-rate-limit\<close>, a dependency whose
  code is not in the sources. Sections 3 and 4.2 of the specification: a counter for
  each source address holds a request count and the expiry of its window; it is created
  on the first request of the address and reset when its window has elapsed (a fixed
  window). \<open>increment\<close> counts one request of \<open>key\<close> at time \<open>t\<close> and returns the
  count of its window.
\<close>

definition increment ::
  "(string \<Rightarrow> (nat \<times> nat) option) \<Rightarrow> string \<Rightarrow> nat
     \<Rightarrow> nat \<times> (string \<Rightarrow> (nat \<times> nat) option)" where
  "increment h key t =
     (case (case h key of
              None \<Rightarrow> (0, t + windowMs)
            | Some (n, resetTime) \<Rightarrow> if resetTime \<le> t then (0, t + windowMs) else (n, resetTime)) of
        (n, resetTime) \<Rightarrow> (Suc n, h(key \<mapsto> (Suc n, resetTime))))"

text \<open>Lines 42 to 50: the \<^verbatim>\<open>handler\<close> option, called for a request over the limit.\<close>

definition contactLimiter_handler :: "world \<Rightarrow> request \<Rightarrow> state \<Rightarrow> outcome \<times> state" where
  "contactLimiter_handler w req st =
     (Respond 429 (ErrorMsg ''Too many requests. Please try again later.''),
      st\<lparr> log := log st @ [logEvent ''RATE_LIMITED'' [(''ip'', Str (ip req))] (now w)] \<rparr>)"

text \<open>Line 54: \<^verbatim>\<open>app.post("/api/contact", contactLimiter, handler)\<close>.\<close>

definition contact_route :: "env \<Rightarrow> world \<Rightarrow> request \<Rightarrow> state \<Rightarrow> outcome \<times> state" where
  "contact_route e w req st =
     (case increment (hits st) (ip req) (now w) of
        (totalHits, h) \<Rightarrow>
          if totalHits > limiter_max then contactLimiter_handler w req (st\<lparr> hits := h \<rparr>)
          else contact_handler e w req (st\<lparr> hits := h \<rparr>))"

text \<open>A run of the service on a sequence of requests, each with the world's answers.\<close>

fun run_contact :: "env \<Rightarrow> (world \<times> request) list \<Rightarrow> state \<Rightarrow> outcome list \<times> state" where
  "run_contact e [] st = ([], st)"
| "run_contact e ((w, req) # rs) st =
     (case contact_route e w req st of
        (out, st1) \<Rightarrow>
          (case run_contact e rs st1 of (outs, st2) \<Rightarrow> (out # outs, st2)))"

section \<open>The admin route\<close>

record admin_request =
  authorization :: jsstring
  query_page :: jsstring
  query_limit :: jsstring

text \<open>\<^verbatim>\<open>s.split(c)\<close> for a one-character separator, and \<^verbatim>\<open>xs[i]\<close>.\<close>

fun split_on :: "char \<Rightarrow> string \<Rightarrow> string list" where
  "split_on c [] = [[]]"
| "split_on c (x # xs) =
     (if x = c then [] # split_on c xs
      else (case split_on c xs of
              [] \<Rightarrow> [[x]]
            | part # parts \<Rightarrow> (x # part) # parts))"

definition index :: "'a list \<Rightarrow> nat \<Rightarrow> 'a option" where
  "index xs i = (if i < length xs then Some (xs ! i) else None)"

definition startsWith :: "string \<Rightarrow> string \<Rightarrow> bool" where
  "startsWith s p = prefix p s"

text \<open>Lines 19 to 33. \<open>None\<close> is the call of \<^verbatim>\<open>next()\<close>.\<close>

definition adminAuth :: "env \<Rightarrow> admin_request \<Rightarrow> outcome option" where
  "adminAuth e req =
     (let authHeader = authorization req in
      if falsy authHeader \<or> \<not> startsWith (str authHeader) ''Bearer '' then
        Some (Respond 401 (ErrorMsg ''Unauthorized''))
      else
        (let token = index (split_on CHR '' '' (str authHeader)) 1 in
         if token \<noteq> ADMIN_API_KEY e then Some (Respond 403 (ErrorMsg ''Forbidden''))
         else None))"

text \<open>
  \<^verbatim>\<open>parseInt(v, 10)\<close>: the argument as a string, leading white space dropped, a sign,
  then the longest run of decimal digits; \<open>None\<close> is NaN. The white space is the
  part of JavaScript's that a code unit below 256 can hold. Numbers are exact integers
  here (a JavaScript number is exact up to 2 to the power 53).
\<close>

definition to_string :: "jsstring \<Rightarrow> string" where
  "to_string v = (case v of None \<Rightarrow> ''undefined'' | Some s \<Rightarrow> s)"

definition isWhiteSpace :: "char \<Rightarrow> bool" where
  "isWhiteSpace c = (c \<in> set [CHR 0x09, CHR 0x0A, CHR 0x0B, CHR 0x0C, CHR 0x0D, CHR 0x20, CHR 0xA0])"

definition isDigit :: "char \<Rightarrow> bool" where
  "isDigit c = (48 \<le> (of_char c :: nat) \<and> (of_char c :: nat) \<le> 57)"

definition digits_value :: "string \<Rightarrow> nat" where
  "digits_value ds = foldl (\<lambda>acc c. 10 * acc + (of_char c - 48)) 0 ds"

definition parseInt :: "jsstring \<Rightarrow> int option" where
  "parseInt v =
     (let s = dropWhile isWhiteSpace (to_string v);
          negative = (case s of [] \<Rightarrow> False | c # _ \<Rightarrow> c = CHR ''-'');
          s1 = (case s of [] \<Rightarrow> [] | c # r \<Rightarrow> if c = CHR ''-'' \<or> c = CHR ''+'' then r else s);
          ds = takeWhile isDigit s1
      in if ds = [] then None
         else Some (if negative then - int (digits_value ds) else int (digits_value ds)))"

text \<open>\<^verbatim>\<open>n || d\<close> on a number: NaN and 0 are falsy.\<close>

definition num_or :: "int option \<Rightarrow> int \<Rightarrow> int" where
  "num_or n d = (case n of None \<Rightarrow> d | Some k \<Rightarrow> if k = 0 then d else k)"

text \<open>
  Lines 166 to 181: the SELECT, \<^verbatim>\<open>ORDER BY created_at DESC LIMIT $1 OFFSET $2\<close>.
  PostgreSQL refuses a negative OFFSET and a negative LIMIT with an error, and looks at
  the offset first.
\<close>

definition select_messages :: "row list \<Rightarrow> int \<Rightarrow> int \<Rightarrow> exn + row list" where
  "select_messages rows limit offset =
     (if offset < 0 then Inl (Error ''OFFSET must not be negative'')
      else if limit < 0 then Inl (Error ''LIMIT must not be negative'')
      else Inr (take (nat limit) (drop (nat offset) (rev (sort_key created_at rows)))))"

text \<open>
  Lines 158 to 205. Line 165 reads \<^verbatim>\<open>const { rows } await pool.query(\<close>; the model
  takes it as the assignment \<^verbatim>\<open>const { rows } = await pool.query(\<close>. The count of line
  187 is the number of rows of the table.
\<close>

definition admin_handler :: "world \<Rightarrow> admin_request \<Rightarrow> state \<Rightarrow> outcome \<times> state" where
  "admin_handler w req st =
     (let page = num_or (parseInt (query_page req)) 1;
          limit = num_or (parseInt (query_limit req)) 20;
          offset = (page - 1) * limit
      in case (case db w of
                 QueryThrows err \<Rightarrow> Inl err
               | QueryOk \<Rightarrow> select_messages (messages st) limit offset) of
           Inl err \<Rightarrow>
             (Respond 500 (ErrorMsg ''Failed to fetch messages''),
              st\<lparr> log := log st @
                [logEvent ''ERROR''
                   [(''type'', Str ''ADMIN_FETCH_FAILED''), (''error'', Str (exn_message err))]
                   (now w)] \<rparr>)
         | Inr rows \<Rightarrow>
             (let total = int (length (messages st));
                  totalPages = \<lceil>real_of_int total / real_of_int limit\<rceil>
              in (Respond 200 (Listing page limit total totalPages rows), st)))"

text \<open>
  Line 158 registers two handlers, \<open>adminAuth\<close> and the listing handler: Express runs
  them in this order for a request that it dispatches to the route.
\<close>

definition admin_chain :: "env \<Rightarrow> world \<Rightarrow> admin_request \<Rightarrow> state \<Rightarrow> outcome \<times> state" where
  "admin_chain e w req st =
     (case adminAuth e req of
        Some r \<Rightarrow> (r, st)
      | None \<Rightarrow> admin_handler w req st)"

text \<open>
  How the router of Express matches the path of a request against a registered path
  that has no parameter: letters match in either case, and one slash at the end of
  the request's path is allowed. The path of a request starts with a slash.
\<close>

definition to_lower :: "char \<Rightarrow> char" where
  "to_lower c =
     (if 65 \<le> (of_char c :: nat) \<and> (of_char c :: nat) \<le> 90
      then char_of ((of_char c :: nat) + 32) else c)"

definition route_matches :: "string \<Rightarrow> string \<Rightarrow> bool" where
  "route_matches registered path =
     (map to_lower path = map to_lower registered \<or>
      map to_lower path = map to_lower registered @ ''/'')"

text \<open>
  Line 158 as written: the path is \<^verbatim>\<open>"api/admin/messages"\<close>, without the leading
  slash that line 54 has. The only other route is \<^verbatim>\<open>POST /api/contact\<close>, so a GET
  request that this route does not match is answered by the final handler of Express,
  with HTTP 404 and a page that names the path.
\<close>

definition admin_route ::
  "env \<Rightarrow> world \<Rightarrow> string \<Rightarrow> admin_request \<Rightarrow> state \<Rightarrow> outcome \<times> state" where
  "admin_route e w path req st =
     (if route_matches ''api/admin/messages'' path then admin_chain e w req st
      else (Respond 404 (NotFoundPage (''Cannot GET '' @ path)), st))"

section \<open>The older variant of the contact route\<close>

text \<open>
  The file \<^verbatim>\<open>src/unnamed/part_003\<close> is the server as it was with nodemailer. Its
  handler of \<^verbatim>\<open>POST /api/contact\<close> (lines 41 to 138) validates and escapes as the
  one of server.js does (lines 45 to 81); the route has no rate limiter. An error of
  nodemailer or of the database is an object with a message and, when set, a code and
  a command.
\<close>

record js_error =
  err_message :: string
  err_code :: jsstring
  err_command :: jsstring

text \<open>
  \<^verbatim>\<open>transporter.sendMail\<close> resolves with an object that holds a message id, or
  rejects.
\<close>

datatype sendMail_result =
    MailInfo string
  | SendMailRejects js_error

datatype insert_result =
    InsertOk
  | InsertThrows js_error

record smtp_world =
  smtp_now :: nat
  sendMail :: sendMail_result
  smtp_db :: insert_result

text \<open>The argument of \<^verbatim>\<open>transporter.sendMail\<close>, lines 87 to 91.\<close>

record smtp_mail =
  smtp_from :: string
  smtp_to :: jsstring
  smtp_subject :: string
  smtp_text :: string

text \<open>
  \<open>smtp_console\<close> holds the calls of \<^verbatim>\<open>console.log\<close> and \<^verbatim>\<open>console.error\<close> with a
  text, and the object of line 119 when there is one; \<open>smtp_log\<close> the objects printed
  by \<open>logEvent\<close>; \<open>smtp_outbox\<close> every call of \<^verbatim>\<open>sendMail\<close>; \<open>smtp_messages\<close> the
  table.
\<close>

record smtp_state =
  smtp_log :: "json_object list"
  smtp_console :: "(string \<times> json_object option) list"
  smtp_outbox :: "smtp_mail list"
  smtp_messages :: "row list"

text \<open>Lines 118 to 137: the \<^verbatim>\<open>catch\<close> block.\<close>

definition smtp_catch :: "smtp_world \<Rightarrow> request \<Rightarrow> js_error \<Rightarrow> smtp_state \<Rightarrow> outcome \<times> smtp_state" where
  "smtp_catch w req err st =
     (Respond 500 (ErrorMsg ''Failed to send email''),
      st\<lparr> smtp_console := smtp_console st @
            [(''SMTP Error details:'',
              Some [(''error'', Str (err_message err)), (''code'', jsval_of (err_code err)),
                    (''command'', Str (or_else (str (err_command err)) ''N/A''))])] @
            (if err_code err = Some ''ECONNREFUSED''
             then [(''Connection refused - likely port blocked by Render'', None)] else []),
          smtp_log := smtp_log st @
            [logEvent ''ERROR''
               [(''ip'', Str (ip req)), (''error'', Str (err_message err)),
                (''details'', jsval_of (err_code err))] (smtp_now w)] \<rparr>)"

text \<open>
  Lines 83 to 117: the \<^verbatim>\<open>try\<close> block. The message takes the raw subject as its
  subject, and the INSERT of lines 95 to 109 takes the raw \<^verbatim>\<open>firstName\<close>,
  \<^verbatim>\<open>lastName\<close>, \<^verbatim>\<open>subject\<close> and \<^verbatim>\<open>message\<close>; the escaped values are used in the
  sender and the text of the message only.
\<close>

definition smtp_try ::
  "env \<Rightarrow> smtp_world \<Rightarrow> request \<Rightarrow> string \<Rightarrow> string \<Rightarrow> string \<Rightarrow> string \<Rightarrow> string
     \<Rightarrow> smtp_state \<Rightarrow> outcome \<times> smtp_state" where
  "smtp_try e w req em sanitizedFirstName sanitizedLastName sanitizedSubject sanitizedMessage st =
     (let p = body req;
          st1 = st\<lparr> smtp_console := smtp_console st @
                    [(''Attempting to send email from: '' @ em, None),
                     (''Using Gmail SMTP: '' @ to_string (EMAIL_USER e), None)],
                  smtp_outbox := smtp_outbox st @
                    [\<lparr> smtp_from = [CHR 0x22] @ sanitizedFirstName @ '' '' @ sanitizedLastName @
                         [CHR 0x22] @ '' <'' @ em @ ''>'',
                       smtp_to = EMAIL_USER e,
                       smtp_subject = or_else (str (subject p)) ''New Portfolio Contact'',
                       smtp_text =
                         ''Name: '' @ sanitizedFirstName @ '' '' @ sanitizedLastName @
                         '' Email: '' @ em @ '' Subject: '' @ sanitizedSubject @
                         '' Message: '' @ sanitizedMessage \<rparr>] \<rparr>
      in case sendMail w of
           SendMailRejects err \<Rightarrow> smtp_catch w req err st1
         | MailInfo messageId \<Rightarrow>
             (let st2 = st1\<lparr> smtp_console := smtp_console st1 @
                          [(''Email sent successfully: '' @ messageId, None)] \<rparr>
              in case smtp_db w of
                   InsertThrows err \<Rightarrow> smtp_catch w req err st2
                 | InsertOk \<Rightarrow>
                     (Respond 200 Success,
                      st2\<lparr> smtp_messages := smtp_messages st2 @
                             [\<lparr> row_id = Suc (length (smtp_messages st2)),
                                first_name = str (firstName p),
                                last_name = str (lastName p),
                                col_email = em,
                                col_subject = or_null (str (subject p)),
                                col_message = str (message p),
                                ip_address = ip req,
                                created_at = smtp_now w \<rparr>],
                           smtp_log := smtp_log st2 @
                             [logEvent ''SUCCESS''
                                [(''ip'', Str (ip req)), (''email'', Str em),
                                 (''subject'', jsval_of (subject p))] (smtp_now w)] \<rparr>)))"

text \<open>Lines 41 to 138 of \<^verbatim>\<open>src/unnamed/part_003\<close>.\<close>

definition smtp_contact_handler ::
  "env \<Rightarrow> smtp_world \<Rightarrow> request \<Rightarrow> smtp_state \<Rightarrow> outcome \<times> smtp_state" where
  "smtp_contact_handler e w req st =
     (let p = body req in
      if truthy (company p) then
        (Respond 200 Success,
         st\<lparr> smtp_log := smtp_log st @
               [logEvent ''SPAM_BLOCKED'' [(''ip'', Str (ip req))] (smtp_now w)] \<rparr>)
      else if falsy (firstName p) \<or> falsy (lastName p) \<or> falsy (email p) \<or> falsy (message p) then
        (Respond 400 (ErrorMsg ''Missing required fields.''), st)
      else if falsy (email p) \<or> \<not> isEmail e (str (email p)) then
        (Respond 400 (ErrorMsg ''Please provide a valid email address''), st)
      else if \<not> isLength (str (email p)) 0 (Some 254) then
        (Respond 400 (ErrorMsg ''Email address is too long''), st)
      else if falsy (message p) \<or> length (str (message p)) > 1000 then
        (Respond 400 (ErrorMsg ''Message must be less than 1000 characters''), st)
      else
        (case escape (message p) of
           Inl err \<Rightarrow> (Uncaught err, st)
         | Inr sanitizedMessage \<Rightarrow>
        (case escape (firstName p) of
           Inl err \<Rightarrow> (Uncaught err, st)
         | Inr sanitizedFirstName \<Rightarrow>
        (case escape (lastName p) of
           Inl err \<Rightarrow> (Uncaught err, st)
         | Inr sanitizedLastName \<Rightarrow>
        (case escape (subject p) of
           Inl err \<Rightarrow> (Uncaught err, st)
         | Inr sanitizedSubject \<Rightarrow>
             smtp_try e w req (str (email p)) sanitizedFirstName sanitizedLastName
               sanitizedSubject sanitizedMessage st)))))"

section \<open>Concrete inputs\<close>

text \<open>
  The environment of the examples: \<open>isEmail\<close> is a stand-in that accepts the one
  address the examples submit, which \<^verbatim>\<open>validator.isEmail\<close> accepts too.
\<close>

definition example_env :: env where
  "example_env =
     \<lparr> isEmail = (\<lambda>s. s = ''john@example.com''),
       EMAIL_USER = Some ''owner@example.com'',
       ADMIN_API_KEY = Some ''s3cret'' \<rparr>"

definition empty_state :: state where
  "empty_state =
     \<lparr> log = [], console_error = [], outbox = [], messages = [], hits = (\<lambda>_. None) \<rparr>"

definition ok_world :: "nat \<Rightarrow> world" where
  "ok_world t = \<lparr> now = t, send = Sent, db = QueryOk \<rparr>"

text \<open>The payload of the end-to-end scenario of section 8 of the specification.\<close>

definition john :: payload where
  "john =
     \<lparr> firstName = Some ''John'', lastName = Some ''Doe'', email = Some ''john@example.com'',
       subject = Some ''Hi'', message = Some ''Hello'', company = Some [] \<rparr>"

definition from_ip :: "string \<Rightarrow> payload \<Rightarrow> request" where
  "from_ip a p = \<lparr> ip = a, body = p \<rparr>"

text \<open>A message with markup, after the example of section 8 of the specification.\<close>

definition script_payload :: payload where
  "script_payload = john\<lparr> message := Some ''<script>'' \<rparr>"

text \<open>The payload of the example test of the README: it has no subject.\<close>

definition readme_example :: payload where
  "readme_example =
     \<lparr> firstName = Some ''John'', lastName = Some ''Doe'', email = Some ''john@example.com'',
       subject = None, message = Some ''Test message'', company = Some [] \<rparr>"

text \<open>A last name of one space, and a message of 1000 characters \<^verbatim>\<open><\<close>.\<close>

definition blank_and_markup :: payload where
  "blank_and_markup =
     \<lparr> firstName = Some ''John'', lastName = Some '' '', email = Some ''john@example.com'',
       subject = Some ''Hi'', message = Some (replicate 1000 (CHR 0x3C)), company = Some [] \<rparr>"

text \<open>The world and the state of the examples of the older variant.\<close>

definition smtp_ok_world :: "nat \<Rightarrow> smtp_world" where
  "smtp_ok_world t = \<lparr> smtp_now = t, sendMail = MailInfo ''<id@example.com>'', smtp_db = InsertOk \<rparr>"

definition smtp_empty_state :: smtp_state where
  "smtp_empty_state = \<lparr> smtp_log = [], smtp_console = [], smtp_outbox = [], smtp_messages = [] \<rparr>"

text \<open>The README's example with a message of 1000 characters, and still no subject.\<close>

definition readme_example_1000 :: payload where
  "readme_example_1000 = readme_example\<lparr> message := Some (replicate 1000 CHR ''a'') \<rparr>"

text \<open>A first name of 21 characters.\<close>

definition long_first_name :: payload where
  "long_first_name = john\<lparr> firstName := Some (replicate 21 CHR ''A'') \<rparr>"


text \<open>Markup in the first name, the last name, the subject and the message.\<close>

definition markup_payload :: payload where
  "markup_payload =
     \<lparr> firstName = Some ''<b>'', lastName = Some ''<i>'', email = Some ''john@example.com'',
       subject = Some ''<u>'', message = Some ''<script>'', company = Some [] \<rparr>"


section \<open>Properties of the contact handler\<close>

lemma falsy_not_truthy: "falsy v = (\<not> truthy v)"
  by (cases v) (simp_all add: falsy_def truthy_def)

lemma truthy_Some: "truthy (Some s) = (s \<noteq> [])"
  by (simp add: truthy_def)

lemma falsy_Some: "falsy (Some s) = (s = [])"
  by (simp add: falsy_def)

subsection \<open>Escaping\<close>

lemma replace_all_Nil: "replace_all c rep [] = []"
  by (simp add: replace_all_def)

lemma replace_all_Cons:
  "replace_all c rep (x # xs) = (if x = c then rep else [x]) @ replace_all c rep xs"
  by (simp add: replace_all_def)

lemma replace_all_append:
  "replace_all c rep (xs @ ys) = replace_all c rep xs @ replace_all c rep ys"
  by (simp add: replace_all_def)

lemma escape_str_Nil: "escape_str [] = []"
  by (simp add: escape_str_def replace_all_Nil)

lemma escape_str_Cons: "escape_str (x # s) = entity x @ escape_str s"
  by (simp add: escape_str_def entity_def replace_all_Cons replace_all_append replace_all_Nil)

lemma escape_str_concat: "escape_str s = concat (map entity s)"
  by (induction s) (simp_all add: escape_str_Nil escape_str_Cons)

lemma entity_length: "1 \<le> length (entity c) \<and> length (entity c) \<le> 6"
  by (simp add: entity_def)

lemma escape_str_length: "length s \<le> length (escape_str s) \<and> length (escape_str s) \<le> 6 * length s"
proof (induction s)
  case Nil
  then show ?case by (simp add: escape_str_Nil)
next
  case (Cons x s)
  from entity_length [of x] Cons show ?case by (simp add: escape_str_Cons)
qed

lemma escape_str_empty: "(escape_str s = []) = (s = [])"
  using escape_str_length [of s] by (cases s) (auto simp add: escape_str_Nil)

lemma entity_no_markup: "set (entity c) \<inter> set markup = {}"
  by (simp add: entity_def markup_def)

lemma escape_str_no_markup: "set (escape_str s) \<inter> set markup = {}"
  using entity_no_markup by (induction s) (auto simp add: escape_str_Nil escape_str_Cons)

lemma escape_str_replicate: "escape_str (replicate n c) = concat (replicate n (entity c))"
  by (induction n) (simp_all add: escape_str_Nil escape_str_Cons)


lemma contact_handler_valid:
  assumes "firstName (body req) = Some fnm" "lastName (body req) = Some lnm"
    "email (body req) = Some em" "subject (body req) = Some sj"
    "message (body req) = Some msg" "falsy (company (body req))"
    "fnm \<noteq> []" "lnm \<noteq> []" "em \<noteq> []" "isEmail e em" "length em \<le> 254"
    "msg \<noteq> []" "length msg \<le> 1000"
  shows "contact_handler e w req st =
           contact_try e w req em (escape_str fnm) (escape_str lnm) (escape_str sj)
             (escape_str msg) st"
  using assms
  by (simp add: contact_handler_def falsy_not_truthy truthy_Some str_def isLength_def escape_def)

lemma contact_catch_status: "fst (contact_catch w req err st) = Respond 500 (ErrorMsg ''Failed to send message. Please try again later.'')"
  by (simp add: contact_catch_def)

lemma contact_try_success:
  assumes "contact_try e w req em a b c d st = (Respond 200 Success, st')"
  shows "send w = Sent \<and> db w = QueryOk \<and>
         outbox st' = outbox st @ [contact_mail e em a b c d] \<and>
         messages st' = messages st @ [contact_row st w req em a b c d]"
  using assms
  by (auto simp add: contact_try_def contact_catch_def contact_row_def Let_def
      split: send_result.splits query_result.splits)

lemma contact_handler_success:
  assumes "contact_handler e w req st = (Respond 200 Success, st')"
    and "falsy (company (body req))"
  shows "\<exists>fnm lnm em sj msg.
           firstName (body req) = Some fnm \<and> lastName (body req) = Some lnm \<and>
           email (body req) = Some em \<and> subject (body req) = Some sj \<and>
           message (body req) = Some msg \<and>
           fnm \<noteq> [] \<and> lnm \<noteq> [] \<and> em \<noteq> [] \<and> isEmail e em \<and> length em \<le> 254 \<and>
           msg \<noteq> [] \<and> length msg \<le> 1000 \<and>
           contact_try e w req em (escape_str fnm) (escape_str lnm) (escape_str sj)
             (escape_str msg) st = (Respond 200 Success, st')"
proof -
  from assms have t: "truthy (firstName (body req))" "truthy (lastName (body req))"
    "truthy (email (body req))" "truthy (message (body req))"
    by (auto simp add: contact_handler_def falsy_not_truthy Let_def split: if_splits)
  then obtain fnm lnm em msg where f: "firstName (body req) = Some fnm" "lastName (body req) = Some lnm"
    "email (body req) = Some em" "message (body req) = Some msg"
    "fnm \<noteq> []" "lnm \<noteq> []" "em \<noteq> []" "msg \<noteq> []"
    by (auto simp add: truthy_def split: option.splits)
  from assms f have v: "isEmail e em" "length em \<le> 254" "length msg \<le> 1000"
    by (auto simp add: contact_handler_def falsy_not_truthy truthy_Some str_def isLength_def Let_def
        split: if_splits)
  from assms f v obtain sj where s: "subject (body req) = Some sj"
    by (cases "subject (body req)")
      (auto simp add: contact_handler_def falsy_not_truthy truthy_Some str_def isLength_def
        escape_def Let_def)
  from contact_handler_valid [OF f(1,2,3) s f(4) assms(2) f(5,6,7) v(1,2) f(8) v(3), of w st] assms(1)
  have "contact_try e w req em (escape_str fnm) (escape_str lnm) (escape_str sj)
             (escape_str msg) st = (Respond 200 Success, st')" by simp
  with f s v show ?thesis by blast
qed

lemma escape_str_script: "escape_str ''<script>'' = ''&lt;script&gt;''"
  by (simp add: escape_str_Cons escape_str_Nil entity_def)

subsection \<open>The claims on the handler\<close>

text \<open>
  C1. A payload whose honeypot field \<open>company\<close> is a non-empty string is answered with
  HTTP 200 and \<open>{success: true}\<close>, whatever the other fields, the environment and the
  outside world are. The only effect is one \<open>SPAM_BLOCKED\<close> event carrying the source
  address: no call of the email provider is made and no row is inserted.
\<close>

theorem honeypot_fake_success:
  assumes "company (body req) = Some c" and "c \<noteq> []"
  shows "contact_handler e w req st =
           (Respond 200 Success,
            st\<lparr> log := log st @ [logEvent ''SPAM_BLOCKED'' [(''ip'', Str (ip req))] (now w)] \<rparr>)
         \<and> outbox (snd (contact_handler e w req st)) = outbox st
         \<and> messages (snd (contact_handler e w req st)) = messages st"
  using assms by (simp add: contact_handler_def truthy_def)

theorem honeypot_fake_success_witness:
  "contact_handler example_env (ok_world 7)
     (from_ip ''203.0.113.9''
        \<lparr> firstName = None, lastName = Some [], email = Some ''not an address'',
          subject = None, message = None, company = Some ''Acme'' \<rparr>) empty_state =
     (Respond 200 Success,
      empty_state\<lparr> log :=
        [[(''timestamp'', IsoTime 7), (''type'', Str ''SPAM_BLOCKED''),
          (''ip'', Str ''203.0.113.9'')]] \<rparr>)"
proof -
  let ?req = "from_ip ''203.0.113.9''
        \<lparr> firstName = None, lastName = Some [], email = Some ''not an address'',
          subject = None, message = None, company = Some ''Acme'' \<rparr>"
  have c: "company (body ?req) = Some ''Acme''" by (simp add: from_ip_def)
  have n: "''Acme'' \<noteq> []" by simp
  from honeypot_fake_success [OF c n, of example_env "ok_world 7" empty_state]
  show ?thesis
    by (simp add: from_ip_def ok_world_def empty_state_def logEvent_def)
qed

text \<open>
  C6, as stated, fails: the honeypot test of line 58 comes first, so a payload that
  misses every required field and fills \<open>company\<close> is answered with HTTP 200, not 400.
\<close>

theorem honeypot_precedes_missing_fields:
  "falsy (firstName (body (from_ip ''203.0.113.9''
        \<lparr> firstName = None, lastName = None, email = None,
          subject = None, message = None, company = Some ''Acme'' \<rparr>)))
   \<and> fst (contact_handler example_env (ok_world 7)
     (from_ip ''203.0.113.9''
        \<lparr> firstName = None, lastName = None, email = None,
          subject = None, message = None, company = Some ''Acme'' \<rparr>) empty_state)
     = Respond 200 Success"
  by (simp add: contact_handler_def from_ip_def truthy_def falsy_def)

text \<open>
  C6, amended. A payload whose honeypot field is absent or empty and in which one of
  \<open>firstName\<close>, \<open>lastName\<close>, \<open>email\<close>, \<open>message\<close> is absent or empty is answered with
  HTTP 400 and \<open>Missing required fields.\<close>, with no effect on the state. The answer
  does not depend on \<open>isEmail\<close> nor on any length: no format validation has a say.
\<close>

theorem missing_fields_rejected:
  assumes "falsy (company (body req))"
    and "falsy (firstName (body req)) \<or> falsy (lastName (body req))
         \<or> falsy (email (body req)) \<or> falsy (message (body req))"
  shows "contact_handler e w req st = (Respond 400 (ErrorMsg ''Missing required fields.''), st)"
  using assms by (auto simp add: contact_handler_def falsy_not_truthy)

theorem missing_fields_rejected_witness:
  "contact_handler example_env (ok_world 7)
     (from_ip ''203.0.113.9''
        \<lparr> firstName = Some ''John'', lastName = Some [], email = Some ''not an address'',
          subject = None, message = Some (replicate 2000 CHR ''x''), company = None \<rparr>)
     empty_state =
     (Respond 400 (ErrorMsg ''Missing required fields.''), empty_state)"
proof -
  let ?req = "from_ip ''203.0.113.9''
        \<lparr> firstName = Some ''John'', lastName = Some [], email = Some ''not an address'',
          subject = None, message = Some (replicate 2000 CHR ''x''), company = None \<rparr>"
  have c: "falsy (company (body ?req))" by (simp add: from_ip_def falsy_def)
  have m: "falsy (firstName (body ?req)) \<or> falsy (lastName (body ?req))
         \<or> falsy (email (body ?req)) \<or> falsy (message (body ?req))"
    by (simp add: from_ip_def falsy_def)
  from missing_fields_rejected [OF c m, of example_env "ok_world 7" empty_state]
  show ?thesis .
qed

text \<open>
  The handler of server.js. When a submission is accepted (HTTP 200 on a payload that
  does not trigger the honeypot), the five fields were strings, one call of the provider
  was made and one row was inserted. Every field of the message handed to the provider
  and every column of the row is given: they hold the escaped first name, last name,
  subject and message, in which none of the characters \<^verbatim>\<open>< > " ' / \ `\<close> is left, and the
  address as it was submitted.
\<close>

lemma accepted_submission_is_escaped:
  assumes "contact_handler e w req st = (Respond 200 Success, st')"
    and "falsy (company (body req))"
  shows "\<exists>fnm lnm em sj msg m r.
           firstName (body req) = Some fnm \<and> lastName (body req) = Some lnm \<and>
           email (body req) = Some em \<and> subject (body req) = Some sj \<and>
           message (body req) = Some msg \<and>
           outbox st' = outbox st @ [m] \<and>
           mail_from m = ''Portfolio Contact <onboarding@resend.dev>'' \<and>
           mail_to m = [EMAIL_USER e] \<and>
           mail_reply_to m = em \<and>
           mail_subject m =
             (if escape_str sj = [] then ''New Portfolio Contact'' else escape_str sj) \<and>
           mail_text m =
             ''Name: '' @ escape_str fnm @ '' '' @ escape_str lnm @ [CHR 0x0A] @
             ''Email: '' @ em @ [CHR 0x0A] @
             ''Subject: '' @ escape_str sj @ [CHR 0x0A] @
             ''Message: '' @ escape_str msg \<and>
           mail_html m =
             [CHR 0x0A] @ ''        <h3>New Contact Form Submission</h3>'' @ [CHR 0x0A] @
             ''        <p><strong>Name:</strong> '' @ escape_str fnm @ '' '' @
               escape_str lnm @ ''</p>'' @ [CHR 0x0A] @
             ''        <p><strong>Email:</strong> '' @ em @ ''</p>'' @ [CHR 0x0A] @
             ''        <p><strong>Subject:</strong> '' @
               (if escape_str sj = [] then ''None'' else escape_str sj) @ ''</p>'' @ [CHR 0x0A] @
             ''        <p><strong>Message:</strong></p>'' @ [CHR 0x0A] @
             ''        <p>'' @ escape_str msg @ ''</p>'' @ [CHR 0x0A] @
             ''      '' \<and>
           messages st' = messages st @ [r] \<and>
           first_name r = escape_str fnm \<and> last_name r = escape_str lnm \<and>
           col_email r = em \<and>
           col_subject r = (if escape_str sj = [] then None else Some (escape_str sj)) \<and>
           col_message r = escape_str msg \<and> ip_address r = ip req \<and>
           set (escape_str fnm) \<inter> set markup = {} \<and> set (escape_str lnm) \<inter> set markup = {} \<and>
           set (escape_str sj) \<inter> set markup = {} \<and> set (escape_str msg) \<inter> set markup = {}"
proof -
  from contact_handler_success [OF assms] obtain fnm lnm em sj msg where
    f: "firstName (body req) = Some fnm" "lastName (body req) = Some lnm"
       "email (body req) = Some em" "subject (body req) = Some sj"
       "message (body req) = Some msg"
    and t: "contact_try e w req em (escape_str fnm) (escape_str lnm) (escape_str sj)
             (escape_str msg) st = (Respond 200 Success, st')"
    by blast
  from contact_try_success [OF t] have
    o: "outbox st' = outbox st @
          [contact_mail e em (escape_str fnm) (escape_str lnm) (escape_str sj) (escape_str msg)]"
    and r: "messages st' = messages st @
          [contact_row st w req em (escape_str fnm) (escape_str lnm) (escape_str sj) (escape_str msg)]"
    by simp_all
  show ?thesis
    using f o r escape_str_no_markup
    by (simp add: contact_row_def contact_mail_def or_else_def or_null_def nl_def)
qed

text \<open>
  The older variant. When it accepts a submission, the row it inserts holds the first
  name, the last name and the message as they were submitted.
\<close>

lemma smtp_try_success:
  assumes "smtp_try e w req em a b c d st = (Respond 200 Success, st')"
  shows "smtp_messages st' = smtp_messages st @
           [\<lparr> row_id = Suc (length (smtp_messages st)),
              first_name = str (firstName (body req)),
              last_name = str (lastName (body req)),
              col_email = em,
              col_subject = or_null (str (subject (body req))),
              col_message = str (message (body req)),
              ip_address = ip req,
              created_at = smtp_now w \<rparr>]"
  using assms
  by (auto simp add: smtp_try_def smtp_catch_def Let_def
      split: sendMail_result.splits insert_result.splits)

lemma smtp_accepted_submission_is_raw:
  assumes "smtp_contact_handler e w req st = (Respond 200 Success, st')"
    and "falsy (company (body req))"
  shows "\<exists>r. smtp_messages st' = smtp_messages st @ [r] \<and>
           firstName (body req) = Some (first_name r) \<and>
           lastName (body req) = Some (last_name r) \<and>
           message (body req) = Some (col_message r)"
proof -
  from assms have t: "truthy (firstName (body req))" "truthy (lastName (body req))"
    "truthy (message (body req))"
    by (auto simp add: smtp_contact_handler_def falsy_not_truthy Let_def split: if_splits)
  then obtain fnm lnm msg where f: "firstName (body req) = Some fnm"
    "lastName (body req) = Some lnm" "message (body req) = Some msg"
    by (auto simp add: truthy_def split: option.splits)
  from assms obtain em a b c d where
    "smtp_try e w req em a b c d st = (Respond 200 Success, st')"
    by (auto simp add: smtp_contact_handler_def falsy_not_truthy Let_def
        split: if_splits sum.splits)
  from smtp_try_success [OF this] f show ?thesis
    by (simp add: str_def)
qed

text \<open>
  C2 fails on the older variant of the handler (\<^verbatim>\<open>src/unnamed/part_003\<close>, lines 95 to
  109), which escapes the four fields and then inserts the raw ones. A submission with
  markup in its first name, last name, subject and message is accepted; the row holds
  the markup as submitted, and the message to the operator has the raw subject. The
  handler of server.js, on the same payload, inserts the escaped values.
\<close>

theorem older_variant_stores_raw:
  "fst (smtp_contact_handler example_env (smtp_ok_world 7)
          (from_ip ''203.0.113.9'' markup_payload) smtp_empty_state) = Respond 200 Success
   \<and> smtp_messages (snd (smtp_contact_handler example_env (smtp_ok_world 7)
          (from_ip ''203.0.113.9'' markup_payload) smtp_empty_state)) =
       [\<lparr> row_id = 1, first_name = ''<b>'', last_name = ''<i>'',
          col_email = ''john@example.com'', col_subject = Some ''<u>'',
          col_message = ''<script>'', ip_address = ''203.0.113.9'', created_at = 7 \<rparr>]
   \<and> map smtp_subject (smtp_outbox (snd (smtp_contact_handler example_env (smtp_ok_world 7)
          (from_ip ''203.0.113.9'' markup_payload) smtp_empty_state))) = [''<u>'']
   \<and> messages (snd (contact_handler example_env (ok_world 7)
          (from_ip ''203.0.113.9'' markup_payload) empty_state)) =
       [\<lparr> row_id = 1, first_name = ''&lt;b&gt;'', last_name = ''&lt;i&gt;'',
          col_email = ''john@example.com'', col_subject = Some ''&lt;u&gt;'',
          col_message = ''&lt;script&gt;'', ip_address = ''203.0.113.9'', created_at = 7 \<rparr>]"
proof -
  have esc: "escape_str ''<b>'' = ''&lt;b&gt;''" "escape_str ''<i>'' = ''&lt;i&gt;''"
    "escape_str ''<u>'' = ''&lt;u&gt;''" "escape_str ''<script>'' = ''&lt;script&gt;''"
    by (simp_all add: escape_str_Cons escape_str_Nil entity_def)
  show ?thesis
    by (simp add: smtp_contact_handler_def smtp_try_def contact_handler_def contact_try_def
        contact_row_def markup_payload_def from_ip_def example_env_def smtp_ok_world_def
        ok_world_def smtp_empty_state_def empty_state_def truthy_def falsy_def str_def
        isLength_def escape_def or_else_def or_null_def esc Let_def)
qed

lemma contact_try_sent:
  assumes "send w = Sent" "db w = QueryOk"
  shows "contact_try e w req em a b c d st =
     (Respond 200 Success,
      st\<lparr> outbox := outbox st @ [contact_mail e em a b c d],
          messages := messages st @ [contact_row st w req em a b c d],
          log := log st @
            [logEvent ''SUCCESS''
               [(''ip'', Str (ip req)), (''email'', Str em),
                (''subject'', jsval_of (subject (body req)))] (now w)] \<rparr>)"
  using assms by (simp add: contact_try_def contact_row_def Let_def)

lemma contact_try_outbox:
  "outbox (snd (contact_try e w req em a b c d st)) = outbox st @ [contact_mail e em a b c d]"
  by (simp add: contact_try_def contact_catch_def Let_def
      split: send_result.splits query_result.splits)

lemma contact_try_status:
  "fst (contact_try e w req em a b c d st) = Respond 200 Success \<or>
   fst (contact_try e w req em a b c d st) =
     Respond 500 (ErrorMsg ''Failed to send message. Please try again later.'')"
  by (simp add: contact_try_def contact_catch_def Let_def
      split: send_result.splits query_result.splits)

text \<open>
  C3. A submission that passes validation makes one call of the provider. When the call
  throws, or answers with an error payload, no row is inserted, the answer is HTTP 500
  with the fixed text \<open>Failed to send message. Please try again later.\<close>, whatever the
  error says, and an \<open>ERROR\<close> event with the source address and the error's message
  is logged; after an error payload a \<open>RESEND_ERROR\<close> event with the source address, the
  submitter's address and the provider's message is logged first.
\<close>

theorem dispatch_failure:
  assumes "firstName (body req) = Some fnm" "lastName (body req) = Some lnm"
    "email (body req) = Some em" "subject (body req) = Some sj"
    "message (body req) = Some msg" "falsy (company (body req))"
    "fnm \<noteq> []" "lnm \<noteq> []" "em \<noteq> []" "isEmail e em" "length em \<le> 254"
    "msg \<noteq> []" "length msg \<le> 1000"
  shows "(\<forall>err. send w = SendThrows err \<longrightarrow>
            contact_handler e w req st =
              (Respond 500 (ErrorMsg ''Failed to send message. Please try again later.''),
               st\<lparr> outbox := outbox st @
                     [contact_mail e em (escape_str fnm) (escape_str lnm) (escape_str sj)
                        (escape_str msg)],
                   console_error := console_error st @ [(''Server error:'', err)],
                   log := log st @
                     [logEvent ''ERROR''
                        [(''ip'', Str (ip req)), (''error'', Str (exn_message err))] (now w)] \<rparr>))
       \<and> (\<forall>m. send w = ErrorPayload m \<longrightarrow>
            contact_handler e w req st =
              (Respond 500 (ErrorMsg ''Failed to send message. Please try again later.''),
               st\<lparr> outbox := outbox st @
                     [contact_mail e em (escape_str fnm) (escape_str lnm) (escape_str sj)
                        (escape_str msg)],
                   console_error := console_error st @ [(''Server error:'', ResendError m)],
                   log := log st @
                     [logEvent ''RESEND_ERROR''
                        [(''ip'', Str (ip req)), (''email'', Str em), (''error'', Str m)] (now w),
                      logEvent ''ERROR''
                        [(''ip'', Str (ip req)), (''error'', Str m)] (now w)] \<rparr>))
       \<and> (send w \<noteq> Sent \<longrightarrow> messages (snd (contact_handler e w req st)) = messages st)"
  unfolding contact_handler_valid [OF assms]
  by (simp add: contact_try_def contact_catch_def Let_def split: send_result.splits)

theorem dispatch_failure_witness:
  "contact_handler example_env \<lparr> now = 7, send = ErrorPayload ''Invalid API key'', db = QueryOk \<rparr>
     (from_ip ''203.0.113.9'' john) empty_state =
   (Respond 500 (ErrorMsg ''Failed to send message. Please try again later.''),
    empty_state\<lparr> outbox :=
        [contact_mail example_env ''john@example.com'' ''John'' ''Doe'' ''Hi'' ''Hello''],
      console_error := [(''Server error:'', ResendError ''Invalid API key'')],
      log :=
        [[(''timestamp'', IsoTime 7), (''type'', Str ''RESEND_ERROR''),
          (''ip'', Str ''203.0.113.9''), (''email'', Str ''john@example.com''),
          (''error'', Str ''Invalid API key'')],
         [(''timestamp'', IsoTime 7), (''type'', Str ''ERROR''),
          (''ip'', Str ''203.0.113.9''), (''error'', Str ''Invalid API key'')]] \<rparr>)
   \<and> contact_handler example_env
       \<lparr> now = 7, send = SendThrows (Error ''fetch failed''), db = QueryOk \<rparr>
       (from_ip ''203.0.113.9'' john) empty_state =
   (Respond 500 (ErrorMsg ''Failed to send message. Please try again later.''),
    empty_state\<lparr> outbox :=
        [contact_mail example_env ''john@example.com'' ''John'' ''Doe'' ''Hi'' ''Hello''],
      console_error := [(''Server error:'', Error ''fetch failed'')],
      log :=
        [[(''timestamp'', IsoTime 7), (''type'', Str ''ERROR''),
          (''ip'', Str ''203.0.113.9''), (''error'', Str ''fetch failed'')]] \<rparr>)"
proof -
  let ?req = "from_ip ''203.0.113.9'' john"
  have f: "firstName (body ?req) = Some ''John''" "lastName (body ?req) = Some ''Doe''"
    "email (body ?req) = Some ''john@example.com''" "subject (body ?req) = Some ''Hi''"
    "message (body ?req) = Some ''Hello''" "falsy (company (body ?req))"
    by (simp_all add: john_def from_ip_def falsy_def)
  have v: "''John'' \<noteq> []" "''Doe'' \<noteq> []" "''john@example.com'' \<noteq> []"
    "isEmail example_env ''john@example.com''" "length ''john@example.com'' \<le> 254"
    "''Hello'' \<noteq> []" "length ''Hello'' \<le> 1000"
    by (simp_all add: example_env_def)
  have esc: "escape_str ''John'' = ''John''" "escape_str ''Doe'' = ''Doe''"
    "escape_str ''Hi'' = ''Hi''" "escape_str ''Hello'' = ''Hello''"
    by (simp_all add: escape_str_Cons escape_str_Nil entity_def)
  note d = dispatch_failure [OF f v, of _ empty_state]
  from d [of "\<lparr> now = 7, send = ErrorPayload ''Invalid API key'', db = QueryOk \<rparr>"]
    d [of "\<lparr> now = 7, send = SendThrows (Error ''fetch failed''), db = QueryOk \<rparr>"]
  show ?thesis
    by (simp add: esc from_ip_def empty_state_def logEvent_def)
qed

text \<open>Whatever the payload, a send call that does not succeed leaves the table as it was.\<close>

lemma no_row_without_dispatch:
  assumes "send w \<noteq> Sent"
  shows "messages (snd (contact_handler e w req st)) = messages st"
  using assms
  by (simp add: contact_handler_def contact_try_def contact_catch_def Let_def
      split: send_result.splits sum.splits)

lemma contact_handler_too_long:
  assumes "firstName (body req) = Some fnm" "lastName (body req) = Some lnm"
    "email (body req) = Some em" "message (body req) = Some msg"
    "falsy (company (body req))"
    "fnm \<noteq> []" "lnm \<noteq> []" "em \<noteq> []" "isEmail e em" "length em \<le> 254"
    "1001 \<le> length msg"
  shows "contact_handler e w req st =
           (Respond 400 (ErrorMsg ''Message must be less than 1000 characters''), st)"
proof -
  from assms(11) have "msg \<noteq> []" by auto
  with assms show ?thesis
    by (simp add: contact_handler_def falsy_not_truthy truthy_Some str_def isLength_def)
qed

lemma contact_handler_absent_subject:
  assumes "firstName (body req) = Some fnm" "lastName (body req) = Some lnm"
    "email (body req) = Some em" "subject (body req) = None"
    "message (body req) = Some msg" "falsy (company (body req))"
    "fnm \<noteq> []" "lnm \<noteq> []" "em \<noteq> []" "isEmail e em" "length em \<le> 254"
    "msg \<noteq> []" "length msg \<le> 1000"
  shows "contact_handler e w req st =
           (Uncaught (TypeError ''Expected a string but received a undefined''), st)"
  using assms
  by (simp add: contact_handler_def falsy_not_truthy truthy_Some str_def isLength_def escape_def)

text \<open>
  The boundary of the message length, on a payload that is valid but for its message:
  a message of exactly 1000 characters is never answered with HTTP 400; when the subject
  is a string the provider is called with the escaped fields, and when the provider and
  the store succeed the answer is HTTP 200 and the row is inserted. A message of 1001
  characters or more is answered with HTTP 400 and
  \<open>Message must be less than 1000 characters\<close>, with no effect.
\<close>

theorem message_length_boundary:
  assumes "firstName (body req) = Some fnm" "lastName (body req) = Some lnm"
    "email (body req) = Some em" "message (body req) = Some msg"
    "falsy (company (body req))"
    "fnm \<noteq> []" "lnm \<noteq> []" "em \<noteq> []" "isEmail e em" "length em \<le> 254"
  shows "(length msg = 1000 \<longrightarrow>
            (\<forall>b. fst (contact_handler e w req st) \<noteq> Respond 400 b) \<and>
            (\<forall>sj. subject (body req) = Some sj \<longrightarrow>
               outbox (snd (contact_handler e w req st)) =
                 outbox st @ [contact_mail e em (escape_str fnm) (escape_str lnm)
                                (escape_str sj) (escape_str msg)] \<and>
               (send w = Sent \<and> db w = QueryOk \<longrightarrow>
                  fst (contact_handler e w req st) = Respond 200 Success \<and>
                  messages (snd (contact_handler e w req st)) =
                    messages st @ [contact_row st w req em (escape_str fnm) (escape_str lnm)
                                     (escape_str sj) (escape_str msg)])))
       \<and> (1001 \<le> length msg \<longrightarrow>
            contact_handler e w req st =
              (Respond 400 (ErrorMsg ''Message must be less than 1000 characters''), st))"
proof (intro conjI impI allI)
  assume l: "length msg = 1000"
  then have m: "msg \<noteq> []" "length msg \<le> 1000" by auto
  fix b
  show "fst (contact_handler e w req st) \<noteq> Respond 400 b"
  proof (cases "subject (body req)")
    case None
    from contact_handler_absent_subject [OF assms(1,2,3) None assms(4,5,6,7,8,9,10) m]
    show ?thesis by simp
  next
    case (Some sj)
    from contact_handler_valid [OF assms(1,2,3) Some assms(4,5,6,7,8,9,10) m, of w st]
      contact_try_status [of e w req em "escape_str fnm" "escape_str lnm" "escape_str sj"
        "escape_str msg" st]
    show ?thesis by auto
  qed
next
  fix sj
  assume l: "length msg = 1000" and s: "subject (body req) = Some sj"
  from l have m: "msg \<noteq> []" "length msg \<le> 1000" by auto
  note v = contact_handler_valid [OF assms(1,2,3) s assms(4,5,6,7,8,9,10) m, of w st]
  show "outbox (snd (contact_handler e w req st)) =
          outbox st @ [contact_mail e em (escape_str fnm) (escape_str lnm)
                         (escape_str sj) (escape_str msg)]"
    by (simp add: v contact_try_outbox)
  assume ok: "send w = Sent \<and> db w = QueryOk"
  then show "fst (contact_handler e w req st) = Respond 200 Success"
    by (simp add: v contact_try_sent)
  from ok show "messages (snd (contact_handler e w req st)) =
          messages st @ [contact_row st w req em (escape_str fnm) (escape_str lnm)
                           (escape_str sj) (escape_str msg)]"
    by (simp add: v contact_try_sent)
next
  assume "1001 \<le> length msg"
  from contact_handler_too_long [OF assms this]
  show "contact_handler e w req st =
          (Respond 400 (ErrorMsg ''Message must be less than 1000 characters''), st)" .
qed

theorem message_length_boundary_witness:
  "fst (contact_handler example_env (ok_world 7)
     (from_ip ''203.0.113.9'' (john\<lparr> message := Some (replicate 1000 CHR ''a'') \<rparr>))
     empty_state) = Respond 200 Success
   \<and> contact_handler example_env (ok_world 7)
     (from_ip ''203.0.113.9'' (john\<lparr> message := Some (replicate 1001 CHR ''a'') \<rparr>))
     empty_state =
     (Respond 400 (ErrorMsg ''Message must be less than 1000 characters''), empty_state)"
proof -
  let ?r0 = "from_ip ''203.0.113.9'' (john\<lparr> message := Some (replicate 1000 CHR ''a'') \<rparr>)"
  let ?r1 = "from_ip ''203.0.113.9'' (john\<lparr> message := Some (replicate 1001 CHR ''a'') \<rparr>)"
  have v: "''John'' \<noteq> []" "''Doe'' \<noteq> []" "''john@example.com'' \<noteq> []"
    "isEmail example_env ''john@example.com''" "length ''john@example.com'' \<le> 254"
    by (simp_all add: example_env_def)
  have f0: "firstName (body ?r0) = Some ''John''" "lastName (body ?r0) = Some ''Doe''"
    "email (body ?r0) = Some ''john@example.com''"
    "message (body ?r0) = Some (replicate 1000 CHR ''a'')" "falsy (company (body ?r0))"
    by (simp_all add: john_def from_ip_def falsy_def)
  have f1: "firstName (body ?r1) = Some ''John''" "lastName (body ?r1) = Some ''Doe''"
    "email (body ?r1) = Some ''john@example.com''"
    "message (body ?r1) = Some (replicate 1001 CHR ''a'')" "falsy (company (body ?r1))"
    by (simp_all add: john_def from_ip_def falsy_def)
  have s0: "subject (body ?r0) = Some ''Hi''" by (simp add: john_def from_ip_def)
  from message_length_boundary [OF f0 v, of "ok_world 7" empty_state] s0
  have a: "fst (contact_handler example_env (ok_world 7) ?r0 empty_state) = Respond 200 Success"
    by (simp add: ok_world_def)
  from message_length_boundary [OF f1 v, of "ok_world 7" empty_state]
  have b: "contact_handler example_env (ok_world 7) ?r1 empty_state =
     (Respond 400 (ErrorMsg ''Message must be less than 1000 characters''), empty_state)"
    by simp
  from a b show ?thesis by simp
qed

text \<open>
  C7 fails on the code. The README's example payload with a message of exactly 1000
  characters is valid, and has no subject, which is optional: line 94 throws the
  TypeError of C8, so the submission is not accepted. With a subject that is a string
  the same message is accepted.
\<close>

theorem boundary_message_without_subject_throws:
  "length (str (message readme_example_1000)) = 1000
   \<and> contact_handler example_env (ok_world 7) (from_ip ''203.0.113.9'' readme_example_1000)
       empty_state =
     (Uncaught (TypeError ''Expected a string but received a undefined''), empty_state)
   \<and> fst (contact_handler example_env (ok_world 7)
       (from_ip ''203.0.113.9'' (readme_example_1000\<lparr> subject := Some ''Hi'' \<rparr>))
       empty_state) = Respond 200 Success"
proof -
  let ?r0 = "from_ip ''203.0.113.9'' readme_example_1000"
  let ?r1 = "from_ip ''203.0.113.9'' (readme_example_1000\<lparr> subject := Some ''Hi'' \<rparr>)"
  have v: "''John'' \<noteq> []" "''Doe'' \<noteq> []" "''john@example.com'' \<noteq> []"
    "isEmail example_env ''john@example.com''" "length ''john@example.com'' \<le> 254"
    "replicate 1000 CHR ''a'' \<noteq> []" "length (replicate 1000 CHR ''a'') \<le> 1000"
    by (simp_all add: example_env_def)
  have f0: "firstName (body ?r0) = Some ''John''" "lastName (body ?r0) = Some ''Doe''"
    "email (body ?r0) = Some ''john@example.com''" "subject (body ?r0) = None"
    "message (body ?r0) = Some (replicate 1000 CHR ''a'')" "falsy (company (body ?r0))"
    by (simp_all add: readme_example_1000_def readme_example_def from_ip_def falsy_def)
  have f1: "firstName (body ?r1) = Some ''John''" "lastName (body ?r1) = Some ''Doe''"
    "email (body ?r1) = Some ''john@example.com''" "subject (body ?r1) = Some ''Hi''"
    "message (body ?r1) = Some (replicate 1000 CHR ''a'')" "falsy (company (body ?r1))"
    by (simp_all add: readme_example_1000_def readme_example_def from_ip_def falsy_def)
  have s: "send (ok_world 7) = Sent" "db (ok_world 7) = QueryOk"
    by (simp_all add: ok_world_def)
  have l: "length (str (message readme_example_1000)) = 1000"
    by (simp add: readme_example_1000_def readme_example_def str_def)
  have a: "contact_handler example_env (ok_world 7) ?r0 empty_state =
     (Uncaught (TypeError ''Expected a string but received a undefined''), empty_state)"
    by (rule contact_handler_absent_subject [OF f0 v])
  have b: "fst (contact_handler example_env (ok_world 7) ?r1 empty_state) = Respond 200 Success"
    unfolding contact_handler_valid [OF f1 v] contact_try_sent [OF s] by simp
  from l a b show ?thesis by simp
qed

text \<open>
  C8. The payload of the README's example test is valid and has no subject. Line 94
  passes \<^verbatim>\<open>undefined\<close> to \<^verbatim>\<open>validator.escape\<close>, outside the \<^verbatim>\<open>try\<close> block: a
  TypeError leaves the handler, no call of the provider is made and nothing is
  inserted. The default \<open>New Portfolio Contact\<close> of line 101 is only reached by a
  subject that is the empty string.
\<close>

theorem absent_subject_throws:
  "contact_handler example_env (ok_world 7) (from_ip ''203.0.113.9'' readme_example) empty_state =
     (Uncaught (TypeError ''Expected a string but received a undefined''), empty_state)
   \<and> map mail_subject (outbox (snd
       (contact_handler example_env (ok_world 7)
          (from_ip ''203.0.113.9'' (readme_example\<lparr> subject := Some [] \<rparr>)) empty_state))) =
     [''New Portfolio Contact'']"
  by (simp add: contact_handler_def contact_try_def contact_mail_def readme_example_def
      from_ip_def example_env_def ok_world_def empty_state_def truthy_def falsy_def str_def
      isLength_def escape_def or_else_def escape_str_Nil Let_def)

lemma length_concat_replicate: "length (concat (replicate n xs)) = n * length xs"
  by (induction n) simp_all

lemma escape_str_replicate_lt:
  "length (escape_str (replicate n (CHR 0x3C))) = 4 * n"
  by (simp add: escape_str_replicate length_concat_replicate entity_def)

text \<open>
  The handler tests the submitted values and stores the escaped ones, and trims
  nothing. A submission with a last name of one space and a message of 1000 characters
  \<^verbatim>\<open><\<close> succeeds, and its row has a last name that is blank and a body of 4000
  characters.
\<close>

theorem stored_row_exceeds_data_model:
  "fst (contact_handler example_env (ok_world 7)
          (from_ip ''203.0.113.9'' blank_and_markup) empty_state) = Respond 200 Success
   \<and> length (messages (snd (contact_handler example_env (ok_world 7)
          (from_ip ''203.0.113.9'' blank_and_markup) empty_state))) = 1
   \<and> last_name (last (messages (snd (contact_handler example_env (ok_world 7)
          (from_ip ''203.0.113.9'' blank_and_markup) empty_state)))) = '' ''
   \<and> length (col_message (last (messages (snd (contact_handler example_env (ok_world 7)
          (from_ip ''203.0.113.9'' blank_and_markup) empty_state))))) = 4000"
proof -
  let ?req = "from_ip ''203.0.113.9'' blank_and_markup"
  have f: "firstName (body ?req) = Some ''John''" "lastName (body ?req) = Some '' ''"
    "email (body ?req) = Some ''john@example.com''" "subject (body ?req) = Some ''Hi''"
    "message (body ?req) = Some (replicate 1000 (CHR 0x3C))" "falsy (company (body ?req))"
    by (simp_all add: blank_and_markup_def from_ip_def falsy_def)
  have v: "''John'' \<noteq> []" "'' '' \<noteq> []" "''john@example.com'' \<noteq> []"
    "isEmail example_env ''john@example.com''" "length ''john@example.com'' \<le> 254"
    "replicate 1000 (CHR 0x3C) \<noteq> []" "length (replicate 1000 (CHR 0x3C)) \<le> 1000"
    by (simp_all add: example_env_def)
  have s: "send (ok_world 7) = Sent" "db (ok_world 7) = QueryOk"
    by (simp_all add: ok_world_def)
  have esc: "escape_str '' '' = '' ''"
    by (simp add: escape_str_Cons escape_str_Nil entity_def)
  show ?thesis
    unfolding contact_handler_valid [OF f v] contact_try_sent [OF s]
    by (simp add: contact_row_def empty_state_def esc escape_str_replicate_lt)
qed

text \<open>
  What the handler does ensure of the row of a successful submission. Its first name
  and last name are the escaped forms of submitted values of at least one character;
  its email is the submitted address, which \<open>isEmail\<close> accepts and which has 1 to 254
  characters; its body is the escaped form of a submitted message of 1 to 1000
  characters, and has 1 to 6000 characters; its subject is null or not empty.
\<close>

theorem stored_row_invariants:
  assumes "contact_handler e w req st = (Respond 200 Success, st')"
    and "falsy (company (body req))"
  shows "\<exists>r fnm lnm msg.
           messages st' = messages st @ [r] \<and>
           firstName (body req) = Some fnm \<and> first_name r = escape_str fnm \<and>
           1 \<le> length fnm \<and> 1 \<le> length (first_name r) \<and>
           lastName (body req) = Some lnm \<and> last_name r = escape_str lnm \<and>
           1 \<le> length lnm \<and> 1 \<le> length (last_name r) \<and>
           email (body req) = Some (col_email r) \<and> isEmail e (col_email r) \<and>
           1 \<le> length (col_email r) \<and> length (col_email r) \<le> 254 \<and>
           message (body req) = Some msg \<and> col_message r = escape_str msg \<and>
           1 \<le> length msg \<and> length msg \<le> 1000 \<and>
           1 \<le> length (col_message r) \<and> length (col_message r) \<le> 6000 \<and>
           col_subject r \<noteq> Some []"
proof -
  from contact_handler_success [OF assms] obtain fnm lnm em sj msg where
    f: "firstName (body req) = Some fnm" "lastName (body req) = Some lnm"
       "email (body req) = Some em" "subject (body req) = Some sj"
       "message (body req) = Some msg"
    and v: "fnm \<noteq> []" "lnm \<noteq> []" "em \<noteq> []" "isEmail e em" "length em \<le> 254"
       "msg \<noteq> []" "length msg \<le> 1000"
    and t: "contact_try e w req em (escape_str fnm) (escape_str lnm) (escape_str sj)
             (escape_str msg) st = (Respond 200 Success, st')"
    by blast
  let ?r = "contact_row st w req em (escape_str fnm) (escape_str lnm) (escape_str sj) (escape_str msg)"
  from contact_try_success [OF t] have r: "messages st' = messages st @ [?r]"
    by simp
  from v have n: "1 \<le> length fnm" "1 \<le> length lnm" "1 \<le> length em" "1 \<le> length msg"
    by (simp_all add: Suc_le_eq)
  from n escape_str_length [of fnm] escape_str_length [of lnm] escape_str_length [of msg] v(7)
  have b: "1 \<le> length (escape_str fnm)" "1 \<le> length (escape_str lnm)"
    "1 \<le> length (escape_str msg)" "length (escape_str msg) \<le> 6000"
    by simp_all
  have "messages st' = messages st @ [?r] \<and>
           firstName (body req) = Some fnm \<and> first_name ?r = escape_str fnm \<and>
           1 \<le> length fnm \<and> 1 \<le> length (first_name ?r) \<and>
           lastName (body req) = Some lnm \<and> last_name ?r = escape_str lnm \<and>
           1 \<le> length lnm \<and> 1 \<le> length (last_name ?r) \<and>
           email (body req) = Some (col_email ?r) \<and> isEmail e (col_email ?r) \<and>
           1 \<le> length (col_email ?r) \<and> length (col_email ?r) \<le> 254 \<and>
           message (body req) = Some msg \<and> col_message ?r = escape_str msg \<and>
           1 \<le> length msg \<and> length msg \<le> 1000 \<and>
           1 \<le> length (col_message ?r) \<and> length (col_message ?r) \<le> 6000 \<and>
           col_subject ?r \<noteq> Some []"
    using r f v n b by (simp add: contact_row_def or_null_def)
  then show ?thesis by blast
qed

theorem stored_row_invariants_witness:
  "map first_name (messages (snd (contact_handler example_env (ok_world 7)
      (from_ip ''203.0.113.9'' john) empty_state))) = [''John'']
   \<and> map col_message (messages (snd (contact_handler example_env (ok_world 7)
      (from_ip ''203.0.113.9'' john) empty_state))) = [''Hello'']"
proof -
  let ?req = "from_ip ''203.0.113.9'' john"
  let ?res = "contact_handler example_env (ok_world 7) ?req empty_state"
  have "fst ?res = Respond 200 Success"
    by (simp add: contact_handler_def contact_try_def john_def from_ip_def
        example_env_def ok_world_def truthy_def falsy_def str_def isLength_def escape_def Let_def)
  then have h: "?res = (Respond 200 Success, snd ?res)"
    by (metis prod.collapse)
  have c: "falsy (company (body ?req))"
    by (simp add: john_def from_ip_def falsy_def)
  from stored_row_invariants [OF h c] obtain r fnm msg where
    a: "messages (snd ?res) = messages empty_state @ [r]"
    and b: "firstName (body ?req) = Some fnm" "first_name r = escape_str fnm"
    and d: "message (body ?req) = Some msg" "col_message r = escape_str msg"
    by blast
  from b(1) d(1) have m: "fnm = ''John''" "msg = ''Hello''"
    by (simp_all add: john_def from_ip_def)
  have esc: "escape_str ''John'' = ''John''" "escape_str ''Hello'' = ''Hello''"
    by (simp_all add: escape_str_Cons escape_str_Nil entity_def)
  from a b(2) d(2) m show ?thesis
    by (simp add: empty_state_def esc)
qed

lemma concat_replicate_single: "concat (replicate n [c]) = replicate n c"
  by (induction n) simp_all

text \<open>
  C10 fails on the code. The handler has no test on the length of the first name, the
  last name or the subject (lines 65 to 88 test presence, the email and the length of
  the message only): a submission with a first name of 21 characters succeeds and its
  row holds the 21 characters, where the data model and the README allow 1 to 20.
\<close>

theorem long_first_name_stored:
  "fst (contact_handler example_env (ok_world 7)
          (from_ip ''203.0.113.9'' long_first_name) empty_state) = Respond 200 Success
   \<and> length (messages (snd (contact_handler example_env (ok_world 7)
          (from_ip ''203.0.113.9'' long_first_name) empty_state))) = 1
   \<and> first_name (last (messages (snd (contact_handler example_env (ok_world 7)
          (from_ip ''203.0.113.9'' long_first_name) empty_state)))) = replicate 21 CHR ''A''
   \<and> length (first_name (last (messages (snd (contact_handler example_env (ok_world 7)
          (from_ip ''203.0.113.9'' long_first_name) empty_state))))) = 21"
proof -
  let ?req = "from_ip ''203.0.113.9'' long_first_name"
  have f: "firstName (body ?req) = Some (replicate 21 CHR ''A'')"
    "lastName (body ?req) = Some ''Doe''"
    "email (body ?req) = Some ''john@example.com''" "subject (body ?req) = Some ''Hi''"
    "message (body ?req) = Some ''Hello''" "falsy (company (body ?req))"
    by (simp_all add: long_first_name_def john_def from_ip_def falsy_def)
  have v: "replicate 21 CHR ''A'' \<noteq> []" "''Doe'' \<noteq> []" "''john@example.com'' \<noteq> []"
    "isEmail example_env ''john@example.com''" "length ''john@example.com'' \<le> 254"
    "''Hello'' \<noteq> []" "length ''Hello'' \<le> 1000"
    by (simp_all add: example_env_def)
  have s: "send (ok_world 7) = Sent" "db (ok_world 7) = QueryOk"
    by (simp_all add: ok_world_def)
  have esc: "escape_str (replicate 21 CHR ''A'') = replicate 21 CHR ''A''"
    by (simp add: escape_str_replicate entity_def concat_replicate_single)
  show ?thesis
    unfolding contact_handler_valid [OF f v] contact_try_sent [OF s]
    by (simp add: contact_row_def empty_state_def esc)
qed

section \<open>Properties of the admin route\<close>

lemma split_on_not_Nil: "split_on c s \<noteq> []"
  by (induction s) (auto split: list.splits)

lemma split_on_hd: "hd (split_on c s) = takeWhile (\<lambda>x. x \<noteq> c) s"
  using split_on_not_Nil [of c]
  by (induction s) (auto split: list.splits)

lemma split_on_prefix:
  "c \<notin> set p \<Longrightarrow> split_on c (p @ c # rest) = p # split_on c rest"
  by (induction p) (auto split: list.splits)

lemma index_second: "index (x # xs) (Suc 0) = (if xs = [] then None else Some (hd xs))"
  by (cases xs) (simp_all add: index_def)

lemma bearer_token:
  "index (split_on CHR '' '' (''Bearer '' @ rest)) 1 = Some (takeWhile (\<lambda>x. x \<noteq> CHR '' '') rest)"
proof -
  have "split_on CHR '' '' (''Bearer'' @ CHR '' '' # rest) = ''Bearer'' # split_on CHR '' '' rest"
    by (rule split_on_prefix) simp
  then show ?thesis
    by (simp add: index_second split_on_not_Nil split_on_hd)
qed

lemma adminAuth_bearer:
  assumes "authorization req = Some (''Bearer '' @ rest)"
  shows "adminAuth e req =
     (if ADMIN_API_KEY e = Some (takeWhile (\<lambda>x. x \<noteq> CHR '' '') rest) then None
      else Some (Respond 403 (ErrorMsg ''Forbidden'')))"
proof -
  have p: "startsWith (''Bearer '' @ rest) ''Bearer ''"
    by (simp add: startsWith_def)
  have f: "\<not> falsy (Some (''Bearer '' @ rest))"
    by (simp add: falsy_def)
  have s: "str (Some (''Bearer '' @ rest)) = ''Bearer '' @ rest"
    by (simp add: str_def)
  show ?thesis
    unfolding adminAuth_def Let_def assms s bearer_token using p f by auto
qed

lemma adminAuth_unauthorized:
  assumes "authorization req = None \<or> (\<exists>h. authorization req = Some h \<and> \<not> prefix ''Bearer '' h)"
  shows "adminAuth e req = Some (Respond 401 (ErrorMsg ''Unauthorized''))"
  using assms by (auto simp add: adminAuth_def falsy_def str_def startsWith_def)

lemma adminAuth_next:
  "(adminAuth e req = None) =
       (\<exists>rest. authorization req = Some (''Bearer '' @ rest) \<and>
          ADMIN_API_KEY e = Some (takeWhile (\<lambda>c. c \<noteq> CHR '' '') rest))"
proof
  assume n: "adminAuth e req = None"
  with adminAuth_unauthorized [of req e] obtain h where
    h: "authorization req = Some h" "prefix ''Bearer '' h"
    by (cases "authorization req") auto
  then obtain rest where r: "h = ''Bearer '' @ rest"
    by (auto simp add: prefix_def)
  from adminAuth_bearer [of req rest e] h r n
  have "ADMIN_API_KEY e = Some (takeWhile (\<lambda>c. c \<noteq> CHR '' '') rest)"
    by (simp split: if_splits)
  with h r show "\<exists>rest. authorization req = Some (''Bearer '' @ rest) \<and>
          ADMIN_API_KEY e = Some (takeWhile (\<lambda>c. c \<noteq> CHR '' '') rest)"
    by blast
next
  assume "\<exists>rest. authorization req = Some (''Bearer '' @ rest) \<and>
          ADMIN_API_KEY e = Some (takeWhile (\<lambda>c. c \<noteq> CHR '' '') rest)"
  then obtain rest where "authorization req = Some (''Bearer '' @ rest)"
    "ADMIN_API_KEY e = Some (takeWhile (\<lambda>c. c \<noteq> CHR '' '') rest)" by blast
  with adminAuth_bearer [of req rest e] show "adminAuth e req = None" by simp
qed

text \<open>
  What \<open>adminAuth\<close> does with a request that is handed to the chain of line 158. With
  no Authorization header, or with one that does not start with \<open>Bearer \<close>, the answer
  is HTTP 401 and \<open>Unauthorized\<close>. For a header \<open>Bearer \<close> followed by \<open>rest\<close>, the
  token that line 26 takes is the text of \<open>rest\<close> up to its first space: when it is not
  equal to the configured secret (or no secret is configured) the answer is HTTP 403
  and \<open>Forbidden\<close>, and when it is equal the request is handed to the listing handler.
\<close>

theorem admin_auth_gate:
  "(authorization req = None \<longrightarrow>
      admin_chain e w req st = (Respond 401 (ErrorMsg ''Unauthorized''), st))
   \<and> (\<forall>h. authorization req = Some h \<and> \<not> prefix ''Bearer '' h \<longrightarrow>
      admin_chain e w req st = (Respond 401 (ErrorMsg ''Unauthorized''), st))
   \<and> (\<forall>rest. authorization req = Some (''Bearer '' @ rest) \<and>
        ADMIN_API_KEY e \<noteq> Some (takeWhile (\<lambda>c. c \<noteq> CHR '' '') rest) \<longrightarrow>
      admin_chain e w req st = (Respond 403 (ErrorMsg ''Forbidden''), st))
   \<and> (\<forall>rest. authorization req = Some (''Bearer '' @ rest) \<and>
        ADMIN_API_KEY e = Some (takeWhile (\<lambda>c. c \<noteq> CHR '' '') rest) \<longrightarrow>
      admin_chain e w req st = admin_handler w req st)
   \<and> (adminAuth e req = None) =
       (\<exists>rest. authorization req = Some (''Bearer '' @ rest) \<and>
          ADMIN_API_KEY e = Some (takeWhile (\<lambda>c. c \<noteq> CHR '' '') rest))"
proof (intro conjI allI impI)
  show "(adminAuth e req = None) =
       (\<exists>rest. authorization req = Some (''Bearer '' @ rest) \<and>
          ADMIN_API_KEY e = Some (takeWhile (\<lambda>c. c \<noteq> CHR '' '') rest))"
    by (rule adminAuth_next)
next
  assume "authorization req = None"
  with adminAuth_unauthorized [of req e]
  show "admin_chain e w req st = (Respond 401 (ErrorMsg ''Unauthorized''), st)"
    by (simp add: admin_chain_def)
next
  fix h assume "authorization req = Some h \<and> \<not> prefix ''Bearer '' h"
  with adminAuth_unauthorized [of req e]
  show "admin_chain e w req st = (Respond 401 (ErrorMsg ''Unauthorized''), st)"
    by (simp add: admin_chain_def)
next
  fix rest assume "authorization req = Some (''Bearer '' @ rest) \<and>
        ADMIN_API_KEY e \<noteq> Some (takeWhile (\<lambda>c. c \<noteq> CHR '' '') rest)"
  with adminAuth_bearer [of req rest e]
  show "admin_chain e w req st = (Respond 403 (ErrorMsg ''Forbidden''), st)"
    by (simp add: admin_chain_def)
next
  fix rest assume "authorization req = Some (''Bearer '' @ rest) \<and>
        ADMIN_API_KEY e = Some (takeWhile (\<lambda>c. c \<noteq> CHR '' '') rest)"
  with adminAuth_bearer [of req rest e]
  show "admin_chain e w req st = admin_handler w req st"
    by (simp add: admin_chain_def)
qed


theorem admin_auth_gate_witness:
  "admin_chain example_env (ok_world 7)
     \<lparr> authorization = None, query_page = None, query_limit = None \<rparr> empty_state =
     (Respond 401 (ErrorMsg ''Unauthorized''), empty_state)
   \<and> admin_chain example_env (ok_world 7)
     \<lparr> authorization = Some ''Basic s3cret'', query_page = None, query_limit = None \<rparr> empty_state =
     (Respond 401 (ErrorMsg ''Unauthorized''), empty_state)
   \<and> admin_chain example_env (ok_world 7)
     \<lparr> authorization = Some ''Bearer wrong'', query_page = None, query_limit = None \<rparr> empty_state =
     (Respond 403 (ErrorMsg ''Forbidden''), empty_state)
   \<and> admin_chain example_env (ok_world 7)
     \<lparr> authorization = Some ''Bearer s3cret'', query_page = None, query_limit = None \<rparr> empty_state =
     (Respond 200 (Listing 1 20 0 0 []), empty_state)"
proof -
  let ?none = "\<lparr> authorization = None, query_page = None, query_limit = None \<rparr>"
  let ?basic = "\<lparr> authorization = Some ''Basic s3cret'', query_page = None, query_limit = None \<rparr>"
  let ?wrong = "\<lparr> authorization = Some ''Bearer wrong'', query_page = None, query_limit = None \<rparr>"
  let ?right = "\<lparr> authorization = Some ''Bearer s3cret'', query_page = None, query_limit = None \<rparr>"
  note g = admin_auth_gate [of _ example_env "ok_world 7" empty_state]
  from g [of ?none] have a: "admin_chain example_env (ok_world 7) ?none empty_state =
     (Respond 401 (ErrorMsg ''Unauthorized''), empty_state)" by simp
  from g [of ?basic] have b: "admin_chain example_env (ok_world 7) ?basic empty_state =
     (Respond 401 (ErrorMsg ''Unauthorized''), empty_state)" by simp
  have w: "authorization ?wrong = Some (''Bearer '' @ ''wrong'') \<and>
        ADMIN_API_KEY example_env \<noteq> Some (takeWhile (\<lambda>c. c \<noteq> CHR '' '') ''wrong'')"
    by (simp add: example_env_def)
  from g [of ?wrong] w have c: "admin_chain example_env (ok_world 7) ?wrong empty_state =
     (Respond 403 (ErrorMsg ''Forbidden''), empty_state)" by blast
  have r: "authorization ?right = Some (''Bearer '' @ ''s3cret'') \<and>
        ADMIN_API_KEY example_env = Some (takeWhile (\<lambda>c. c \<noteq> CHR '' '') ''s3cret'')"
    by (simp add: example_env_def)
  from g [of ?right] r have "admin_chain example_env (ok_world 7) ?right empty_state =
     admin_handler (ok_world 7) ?right empty_state" by blast
  also have "\<dots> = (Respond 200 (Listing 1 20 0 0 []), empty_state)"
    by (simp add: admin_handler_def parseInt_def to_string_def isWhiteSpace_def isDigit_def
        num_or_def select_messages_def ok_world_def empty_state_def)
  finally show ?thesis using a b c by simp
qed

lemma to_lower_slash: "to_lower (CHR ''/'') = CHR ''/''"
  by (simp add: to_lower_def)

lemma admin_route_not_found:
  assumes "path = CHR ''/'' # rest"
  shows "admin_route e w path req st = (Respond 404 (NotFoundPage (''Cannot GET '' @ path)), st)"
proof -
  have "to_lower (CHR ''a'') \<noteq> CHR ''/''" by (simp add: to_lower_def)
  with assms have "\<not> route_matches ''api/admin/messages'' path"
    by (simp add: route_matches_def to_lower_slash)
  then show ?thesis by (simp add: admin_route_def)
qed

text \<open>
  C4 fails on the code. The route is registered under a path without its leading slash,
  so it matches no request: \<^verbatim>\<open>GET /api/admin/messages\<close> is answered with HTTP 404,
  with no header as with a wrong token, and \<open>adminAuth\<close> is never called. \<open>adminAuth\<close>
  itself lets more than an exact match through: it compares the first word after
  \<open>Bearer \<close> only, so a header with other words after the secret is accepted; and it
  answers a header \<open>Bearer \<close> with no token with 403, not 401.
\<close>

theorem admin_route_unreachable:
  "admin_route example_env (ok_world 7) ''/api/admin/messages''
     \<lparr> authorization = None, query_page = None, query_limit = None \<rparr> empty_state =
     (Respond 404 (NotFoundPage ''Cannot GET /api/admin/messages''), empty_state)
   \<and> admin_route example_env (ok_world 7) ''/api/admin/messages''
     \<lparr> authorization = Some ''Bearer wrong'', query_page = None, query_limit = None \<rparr>
     empty_state =
     (Respond 404 (NotFoundPage ''Cannot GET /api/admin/messages''), empty_state)
   \<and> adminAuth example_env
     \<lparr> authorization = Some ''Bearer s3cret anything else'', query_page = None,
       query_limit = None \<rparr> = None
   \<and> adminAuth example_env
     \<lparr> authorization = Some ''Bearer '', query_page = None, query_limit = None \<rparr> =
     Some (Respond 403 (ErrorMsg ''Forbidden''))"
proof -
  have a: "adminAuth example_env
     \<lparr> authorization = Some ''Bearer s3cret anything else'', query_page = None,
       query_limit = None \<rparr> = None"
    using adminAuth_bearer [of "\<lparr> authorization = Some ''Bearer s3cret anything else'',
      query_page = None, query_limit = None \<rparr>" "''s3cret anything else''" example_env]
    by (simp add: example_env_def)
  have b: "adminAuth example_env
     \<lparr> authorization = Some ''Bearer '', query_page = None, query_limit = None \<rparr> =
     Some (Respond 403 (ErrorMsg ''Forbidden''))"
    using adminAuth_bearer [of "\<lparr> authorization = Some ''Bearer '',
      query_page = None, query_limit = None \<rparr>" "[]" example_env]
    by (simp add: example_env_def)
  have p: "''/api/admin/messages'' = CHR ''/'' # ''api/admin/messages''" by simp
  from a b admin_route_not_found [OF p] show ?thesis by simp
qed

subsection \<open>The listing\<close>

lemma parseInt_undefined: "parseInt None = None"
  by (simp add: parseInt_def to_string_def isWhiteSpace_def isDigit_def)

lemma num_or_default: "n = None \<or> n = Some 0 \<Longrightarrow> num_or n d = d"
  by (auto simp add: num_or_def)

lemma num_or_kept: "k \<noteq> 0 \<Longrightarrow> num_or (Some k) d = k"
  by (simp add: num_or_def)

lemma select_messages_sorted:
  assumes "select_messages rows limit offset = Inr res"
  shows "sorted_wrt (\<lambda>a b. created_at b \<le> created_at a) res"
proof -
  have "sorted (map created_at (sort_key created_at rows))"
    by (rule sorted_sort_key)
  then have "sorted_wrt (\<lambda>a b. created_at a \<le> created_at b) (sort_key created_at rows)"
    by (simp add: sorted_map)
  then have "sorted_wrt (\<lambda>a b. created_at b \<le> created_at a) (rev (sort_key created_at rows))"
    by (simp add: sorted_wrt_rev)
  then have "sorted_wrt (\<lambda>a b. created_at b \<le> created_at a)
     (take (nat limit) (drop (nat offset) (rev (sort_key created_at rows))))"
    by (intro sorted_wrt_take sorted_wrt_drop)
  with assms show ?thesis
    by (auto simp add: select_messages_def split: if_splits)
qed

lemma admin_handler_listing:
  assumes "db w = QueryOk"
    and "page = num_or (parseInt (query_page req)) 1"
    and "limit = num_or (parseInt (query_limit req)) 20"
    and "1 \<le> page" "0 < limit"
  shows "admin_handler w req st =
     (Respond 200
        (Listing page limit (int (length (messages st)))
           \<lceil>real_of_int (int (length (messages st))) / real_of_int limit\<rceil>
           (take (nat limit) (drop (nat ((page - 1) * limit))
              (rev (sort_key created_at (messages st)))))), st)"
proof -
  from assms(4,5) have n: "\<not> (page - 1) * limit < 0" "\<not> limit < 0"
    by (simp_all add: not_less)
  show ?thesis
    unfolding admin_handler_def Let_def assms(2) [symmetric] assms(3) [symmetric]
    using assms(1) n by (simp add: select_messages_def)
qed

text \<open>
  C5 fails on the code. The chain of line 158, with the right token: \<open>limit=500\<close> is
  answered with a page
  whose limit is 500: nothing caps it at 100. \<open>page=-2\<close> is not replaced by the
  default, since \<^verbatim>\<open>||\<close> only replaces NaN and 0: the offset is -60, the store
  refuses the query, and the answer is HTTP 500.
\<close>

theorem admin_limit_not_capped:
  "admin_chain example_env (ok_world 7)
     \<lparr> authorization = Some ''Bearer s3cret'', query_page = Some ''1'', query_limit = Some ''500'' \<rparr>
     empty_state =
     (Respond 200 (Listing 1 500 0 0 []), empty_state)
   \<and> admin_chain example_env (ok_world 7)
     \<lparr> authorization = Some ''Bearer s3cret'', query_page = Some ''-2'', query_limit = None \<rparr>
     empty_state =
     (Respond 500 (ErrorMsg ''Failed to fetch messages''),
      empty_state\<lparr> log :=
        [[(''timestamp'', IsoTime 7), (''type'', Str ''ADMIN_FETCH_FAILED''),
          (''error'', Str ''OFFSET must not be negative'')]] \<rparr>)"
proof -
  have p: "parseInt (Some ''1'') = Some 1" "parseInt (Some ''500'') = Some 500"
    "parseInt (Some ''-2'') = Some (- 2)" "parseInt None = None"
    by (simp_all add: parseInt_def to_string_def isWhiteSpace_def isDigit_def digits_value_def)
  have a: "adminAuth example_env
     \<lparr> authorization = Some ''Bearer s3cret'', query_page = pg, query_limit = lm \<rparr> = None"
    for pg lm
    using adminAuth_bearer [of "\<lparr> authorization = Some ''Bearer s3cret'', query_page = pg,
      query_limit = lm \<rparr>" "''s3cret''" example_env]
    by (simp add: example_env_def)
  show ?thesis
    by (simp add: admin_chain_def a admin_handler_def p num_or_def select_messages_def
        ok_world_def empty_state_def logEvent_def)
qed

section \<open>Properties of the rate limiter\<close>

lemma contact_catch_hits: "hits (snd (contact_catch w req err st)) = hits st"
  by (simp add: contact_catch_def)











lemma run_contact_length: "length (fst (run_contact e rs st)) = length rs"
proof (induction rs arbitrary: st)
  case Nil
  then show ?case by simp
next
  case (Cons x rs)
  obtain w req where x: "x = (w, req)" by (cases x)
  obtain out st1 where s: "contact_route e w req st = (out, st1)" by (cases "contact_route e w req st")
  obtain outs st2 where t: "run_contact e rs st1 = (outs, st2)" by (cases "run_contact e rs st1")
  from Cons [of st1] t show ?case by (simp add: x s)
qed





end
